theory Spec2Isabelle
  imports Complex_Main
begin

section \<open>Numbers\<close>

text \<open>
  A JavaScript \<open>number\<close> is an IEEE 754 binary64 value: \<open>NaN\<close>, one of the two
  infinities, or a finite value \<open>Fin x\<close>. The two zeros are identified: no operation of
  the modelled code tells them apart (\<open>-0 === 0\<close> holds, and there is no division by a
  variable). Every arithmetic operation computes the exact result and rounds it to the
  nearest binary64 value, a tie to the one with an even significand.
\<close>

datatype number = NaN | PosInf | NegInf | Fin real

definition pow2 :: "int \<Rightarrow> real" where
  "pow2 e = (if 0 \<le> e then 2 ^ nat e else 1 / 2 ^ nat (- e))"

definition round_half_even :: "real \<Rightarrow> int" where
  "round_half_even r =
     (let f = \<lfloor>r\<rfloor>; d = r - of_int f
      in if d < 1 / 2 then f else if 1 / 2 < d then f + 1 else if even f then f else f + 1)"

text \<open>The exponent of the binade of \<open>x\<close>, held at \<open>-1022\<close> for the subnormal values.\<close>

definition binade :: "real \<Rightarrow> int" where
  "binade x = max \<lfloor>log 2 \<bar>x\<bar>\<rfloor> (- 1022)"

text \<open>
  Rounding of an exact result to binary64: the significand has 53 bits, so the spacing
  of the values in the binade of \<open>x\<close> is \<open>2 ^ (binade x - 52)\<close>; a result that rounds to
  \<open>2 ^ 1024\<close> or beyond is an infinity.
\<close>

definition fl :: "real \<Rightarrow> number" where
  "fl x =
     (if x = 0 then Fin 0
      else let ulp = pow2 (binade x - 52);
               y = of_int (round_half_even (x / ulp)) * ulp
           in if 2 ^ 1024 \<le> \<bar>y\<bar> then (if 0 < x then PosInf else NegInf) else Fin y)"

text \<open>
  The operators \<open>+\<close>, \<open>-\<close>, \<open>*\<close>, \<open>/\<close> and \<open><\<close>. The first argument is the rounding of
  the result: \<open>fl\<close> in every engine; it is a parameter so that the formula of the
  straight-line distance can also be read over exact arithmetic.
\<close>

fun n_neg :: "number \<Rightarrow> number" where
  "n_neg NaN = NaN"
| "n_neg PosInf = NegInf"
| "n_neg NegInf = PosInf"
| "n_neg (Fin x) = Fin (- x)"

fun n_add :: "(real \<Rightarrow> number) \<Rightarrow> number \<Rightarrow> number \<Rightarrow> number" where
  "n_add rnd NaN b = NaN"
| "n_add rnd a NaN = NaN"
| "n_add rnd (Fin x) (Fin y) = rnd (x + y)"
| "n_add rnd PosInf NegInf = NaN"
| "n_add rnd NegInf PosInf = NaN"
| "n_add rnd PosInf b = PosInf"
| "n_add rnd NegInf b = NegInf"
| "n_add rnd (Fin x) b = b"

definition n_sub :: "(real \<Rightarrow> number) \<Rightarrow> number \<Rightarrow> number \<Rightarrow> number" where
  "n_sub rnd a b = n_add rnd a (n_neg b)"

fun n_mul :: "(real \<Rightarrow> number) \<Rightarrow> number \<Rightarrow> number \<Rightarrow> number" where
  "n_mul rnd NaN b = NaN"
| "n_mul rnd a NaN = NaN"
| "n_mul rnd (Fin x) (Fin y) = rnd (x * y)"
| "n_mul rnd (Fin x) b =
     (if x = 0 then NaN else if (0 < x) = (b = PosInf) then PosInf else NegInf)"
| "n_mul rnd a (Fin y) =
     (if y = 0 then NaN else if (0 < y) = (a = PosInf) then PosInf else NegInf)"
| "n_mul rnd a b = (if a = b then PosInf else NegInf)"

fun n_div :: "(real \<Rightarrow> number) \<Rightarrow> number \<Rightarrow> number \<Rightarrow> number" where
  "n_div rnd NaN b = NaN"
| "n_div rnd a NaN = NaN"
| "n_div rnd (Fin x) (Fin y) =
     (if y = 0 then (if x = 0 then NaN else if 0 < x then PosInf else NegInf)
      else rnd (x / y))"
| "n_div rnd (Fin x) b = Fin 0"
| "n_div rnd a (Fin y) = (if (0 \<le> y) = (a = PosInf) then PosInf else NegInf)"
| "n_div rnd a b = NaN"

fun n_less :: "number \<Rightarrow> number \<Rightarrow> bool" where
  "n_less NaN b = False"
| "n_less a NaN = False"
| "n_less (Fin x) (Fin y) = (x < y)"
| "n_less a NegInf = False"
| "n_less PosInf b = False"
| "n_less a b = True"

text \<open>\<open>Math.round\<close>: the nearest integer, a tie towards plus infinity; exact on every
  finite value.\<close>

fun Math_round :: "number \<Rightarrow> number" where
  "Math_round (Fin x) = Fin (of_int \<lfloor>x + 1 / 2\<rfloor>)"
| "Math_round a = a"

text \<open>The \<open>max\<close> of the spec's fare rule, as \<open>Math.max\<close> has it.\<close>

fun max_spec :: "number \<Rightarrow> number \<Rightarrow> number" where
  "max_spec NaN b = NaN"
| "max_spec a NaN = NaN"
| "max_spec a b = (if n_less a b then b else a)"

subsection \<open>The \<open>Math\<close> functions\<close>

text \<open>
  ECMAScript leaves the accuracy of \<open>Math.sin\<close>, \<open>Math.cos\<close>, \<open>Math.sqrt\<close> and
  \<open>Math.atan2\<close> to the engine, so they are parameters of the model, together with the
  rounding of the operators and the value of \<open>Math.PI\<close>.
\<close>

record engine =
  rnd :: "real \<Rightarrow> number"
  Math_PI :: number
  Math_sin :: "number \<Rightarrow> number"
  Math_cos :: "number \<Rightarrow> number"
  Math_sqrt :: "number \<Rightarrow> number"
  Math_atan2 :: "number \<Rightarrow> number \<Rightarrow> number"

text \<open>The binary64 value nearest to \<open>pi\<close>, \<open>0x400921FB54442D18\<close>.\<close>

definition PI_double :: real where
  "PI_double = 884279719003555 / 281474976710656"

text \<open>
  What the language definition fixes of an engine and the proofs below use: binary64
  rounding, the value of \<open>Math.PI\<close>, \<open>sin 0 = 0\<close>, \<open>sqrt 0 = 0\<close>, \<open>atan2(0, x) = 0\<close> for
  \<open>x > 0\<close>, and that a cosine and the square root of 1 are finite, the cosine of
  magnitude at most 2 and the root positive.
\<close>

definition es_conforming :: "engine \<Rightarrow> bool" where
  "es_conforming eng =
     (rnd eng = fl \<and> Math_PI eng = Fin PI_double \<and>
      Math_sin eng (Fin 0) = Fin 0 \<and>
      (\<forall>x. \<exists>v. Math_cos eng (Fin x) = Fin v \<and> \<bar>v\<bar> \<le> 2) \<and>
      Math_sqrt eng (Fin 0) = Fin 0 \<and>
      (\<exists>v. Math_sqrt eng (Fin 1) = Fin v \<and> 0 < v) \<and>
      (\<forall>v. 0 < v \<longrightarrow> Math_atan2 eng (Fin 0) (Fin v) = Fin 0))"

text \<open>The angle of the point \<open>(x, y)\<close>, in \<open>(-pi, pi]\<close>.\<close>

definition atan2_real :: "real \<Rightarrow> real \<Rightarrow> real" where
  "atan2_real y x =
     (if 0 < x then arctan (y / x)
      else if x < 0 then (if 0 \<le> y then arctan (y / x) + pi else arctan (y / x) - pi)
      else if 0 < y then pi / 2
      else if y < 0 then - (pi / 2)
      else 0)"

text \<open>
  A reference engine: binary64 arithmetic, and each \<open>Math\<close> function returning the
  binary64 value nearest to the exact result, with the special values of the language
  definition.
\<close>

fun cr_sin :: "number \<Rightarrow> number" where
  "cr_sin (Fin x) = fl (sin x)"
| "cr_sin a = NaN"

fun cr_cos :: "number \<Rightarrow> number" where
  "cr_cos (Fin x) = fl (cos x)"
| "cr_cos a = NaN"

fun cr_sqrt :: "number \<Rightarrow> number" where
  "cr_sqrt (Fin x) = (if x < 0 then NaN else fl (sqrt x))"
| "cr_sqrt PosInf = PosInf"
| "cr_sqrt a = NaN"

fun cr_atan2 :: "number \<Rightarrow> number \<Rightarrow> number" where
  "cr_atan2 NaN x = NaN"
| "cr_atan2 y NaN = NaN"
| "cr_atan2 (Fin y) (Fin x) = fl (atan2_real y x)"
| "cr_atan2 (Fin y) PosInf = Fin 0"
| "cr_atan2 (Fin y) NegInf = (if 0 \<le> y then fl pi else fl (- pi))"
| "cr_atan2 PosInf (Fin x) = fl (pi / 2)"
| "cr_atan2 NegInf (Fin x) = fl (- (pi / 2))"
| "cr_atan2 PosInf PosInf = fl (pi / 4)"
| "cr_atan2 PosInf NegInf = fl (3 * pi / 4)"
| "cr_atan2 NegInf PosInf = fl (- (pi / 4))"
| "cr_atan2 NegInf NegInf = fl (- (3 * pi / 4))"

definition cr_engine :: engine where
  "cr_engine =
     \<lparr>rnd = fl, Math_PI = Fin PI_double, Math_sin = cr_sin, Math_cos = cr_cos,
      Math_sqrt = cr_sqrt, Math_atan2 = cr_atan2\<rparr>"

text \<open>
  The exact reading: no operation rounds and the \<open>Math\<close> functions are the real
  functions. It is not an engine; it says which formula the code evaluates.
\<close>

fun exact_sin :: "number \<Rightarrow> number" where
  "exact_sin (Fin x) = Fin (sin x)"
| "exact_sin a = NaN"

fun exact_cos :: "number \<Rightarrow> number" where
  "exact_cos (Fin x) = Fin (cos x)"
| "exact_cos a = NaN"

fun exact_sqrt :: "number \<Rightarrow> number" where
  "exact_sqrt (Fin x) = (if x < 0 then NaN else Fin (sqrt x))"
| "exact_sqrt PosInf = PosInf"
| "exact_sqrt a = NaN"

fun exact_atan2 :: "number \<Rightarrow> number \<Rightarrow> number" where
  "exact_atan2 (Fin y) (Fin x) = Fin (atan2_real y x)"
| "exact_atan2 y x = NaN"

definition exact_arithmetic :: engine where
  "exact_arithmetic =
     \<lparr>rnd = Fin, Math_PI = Fin pi, Math_sin = exact_sin, Math_cos = exact_cos,
      Math_sqrt = exact_sqrt, Math_atan2 = exact_atan2\<rparr>"

section \<open>Regular expressions\<close>

text \<open>
  The two validation helpers of the booking form test a string against a regular
  expression literal anchored at both ends (\<open>^...$\<close>, no flags), which is a match of the
  whole string. The literals are embedded as terms of \<open>rx\<close> and matched by derivatives.
  Strings are lists of 8-bit characters.
\<close>

datatype rx =
    Never
  | Empty
  | Class "char \<Rightarrow> bool"
  | Seq rx rx
  | Alt rx rx
  | Star rx

fun nullable :: "rx \<Rightarrow> bool" where
  "nullable Never = False"
| "nullable Empty = True"
| "nullable (Class P) = False"
| "nullable (Seq r s) = (nullable r \<and> nullable s)"
| "nullable (Alt r s) = (nullable r \<or> nullable s)"
| "nullable (Star r) = True"

fun deriv :: "char \<Rightarrow> rx \<Rightarrow> rx" where
  "deriv c Never = Never"
| "deriv c Empty = Never"
| "deriv c (Class P) = (if P c then Empty else Never)"
| "deriv c (Seq r s) =
     (if nullable r then Alt (Seq (deriv c r) s) (deriv c s) else Seq (deriv c r) s)"
| "deriv c (Alt r s) = Alt (deriv c r) (deriv c s)"
| "deriv c (Star r) = Seq (deriv c r) (Star r)"

fun rx_test :: "rx \<Rightarrow> string \<Rightarrow> bool" where
  "rx_test r [] = nullable r"
| "rx_test r (c # cs) = rx_test (deriv c r) cs"

text \<open>\<open>r+\<close> and \<open>r{n}\<close>.\<close>

definition rx_plus :: "rx \<Rightarrow> rx" where
  "rx_plus r = Seq r (Star r)"

fun rx_times :: "nat \<Rightarrow> rx \<Rightarrow> rx" where
  "rx_times 0 r = Empty"
| "rx_times (Suc n) r = Seq r (rx_times n r)"

text \<open>\<open>\d\<close> (without the unicode flag: the ten ASCII digits) and \<open>\s\<close> (the white space
  characters below \<open>0x100\<close>: tab, line feed, vertical tab, form feed, carriage return,
  space, no-break space).\<close>

definition rx_digit :: "char \<Rightarrow> bool" where
  "rx_digit c = (c \<in> set ''0123456789'')"

definition rx_space :: "char \<Rightarrow> bool" where
  "rx_space c =
     (c \<in> set [CHR 0x09, CHR 0x0A, CHR 0x0B, CHR 0x0C, CHR 0x0D, CHR '' '', CHR 0xA0])"

text \<open>\<open>[^\s@]\<close>\<close>

definition rx_not_space_at :: "char \<Rightarrow> bool" where
  "rx_not_space_at c = (\<not> rx_space c \<and> c \<noteq> CHR ''@'')"

definition rx_char :: "char \<Rightarrow> char \<Rightarrow> bool" where
  "rx_char a c = (c = a)"

section \<open>The pricing store (AdminContext.tsx)\<close>

subsection \<open>Data\<close>

record City =
  city_id :: string
  city_name :: string

record Route =
  route_id :: string
  from_city :: string
  to_city :: string
  price_4_seater :: number
  price_6_seater :: number

record LocalFare =
  fare_id :: string
  service_area :: string
  normal_4_seater_rate_per_km :: number
  normal_6_seater_rate_per_km :: number
  airport_4_seater_rate_per_km :: number
  airport_6_seater_rate_per_km :: number

record PricingConfig =
  mumbaiLocal :: "LocalFare option"
  cities :: "City list"
  routes :: "Route list"

definition defaultPricing :: PricingConfig where
  "defaultPricing = \<lparr>mumbaiLocal = None, cities = [], routes = []\<rparr>"

subsection \<open>What a call observes and what it does\<close>

text \<open>
  A call of the remote table store settles to \<open>{data, error}\<close>: \<open>Inl e\<close> when \<open>error\<close> is
  set (or the call throws: the same \<open>catch\<close> handles both), \<open>Inr data\<close> otherwise. The
  field \<open>err_code\<close> is \<open>error.code\<close>, absent on an error that carries none.
\<close>

datatype db_error = DbError (err_code: "string option")

record BookingRow =
  customer_id :: string
  customer_name :: string
  customer_phone :: string
  customer_email :: "string option"
  service_type :: string
  from_location :: string
  to_location :: string
  car_type :: string
  travel_date :: string
  travel_time :: string
  estimated_price :: number
  status :: string

text \<open>The fields the message template of \<open>handleSubmit\<close> interpolates, in its order; the
  literal labels and the URI encoding are not modelled.\<close>

record WhatsAppMessage =
  msg_customer :: string
  msg_phone :: string
  msg_email :: string
  msg_pickup :: string
  msg_drop :: string
  msg_distance :: number
  msg_duration :: number
  msg_car_type :: string
  msg_date :: string
  msg_time :: string
  msg_service_type :: string
  msg_estimated_price :: number

text \<open>The observable effects of a call, in the order the code performs them.\<close>

datatype effect =
    ConsoleError string
  | ToastError string
  | ToastSuccess string
  | LocalStorageSetPricing PricingConfig
  | InsertBooking BookingRow
  | WindowOpen WhatsAppMessage

subsection \<open>Loading\<close>

text \<open>\<open>data || []\<close>\<close>

definition or_empty :: "'a list option \<Rightarrow> 'a list" where
  "or_empty d = (case d of None \<Rightarrow> [] | Some xs \<Rightarrow> xs)"

text \<open>
  \<open>fetchCitiesAndRoutes\<close>: one \<open>try\<close> block around both selects and a single
  \<open>setPricing\<close> after them. The routes select is reached only when the cities select
  reported no error, so \<open>routesResp\<close> is consulted only in that branch.
\<close>

definition fetchCitiesAndRoutes ::
  "PricingConfig \<Rightarrow> db_error + City list option \<Rightarrow> db_error + Route list option
     \<Rightarrow> PricingConfig \<times> effect list" where
  "fetchCitiesAndRoutes prev citiesResp routesResp =
     (case citiesResp of
        Inl citiesError \<Rightarrow>
          (prev, [ConsoleError ''Error fetching cities and routes:'',
                  ToastError ''Failed to load cities and routes''])
      | Inr cs \<Rightarrow>
          (case routesResp of
             Inl routesError \<Rightarrow>
               (prev, [ConsoleError ''Error fetching cities and routes:'',
                       ToastError ''Failed to load cities and routes''])
           | Inr rs \<Rightarrow> (prev\<lparr>cities := or_empty cs, routes := or_empty rs\<rparr>, [])))"

definition fetchLocalFares ::
  "PricingConfig \<Rightarrow> db_error + LocalFare option \<Rightarrow> PricingConfig \<times> effect list" where
  "fetchLocalFares prev resp =
     (case resp of
        Inl error \<Rightarrow>
          (prev, [ConsoleError ''Error fetching local fares:'',
                  ToastError ''Failed to load local fares''])
      | Inr localFares \<Rightarrow> (prev\<lparr>mumbaiLocal := localFares\<rparr>, []))"

text \<open>The mount effect of \<open>AdminProvider\<close> starts both fetches; each applies a functional
  update to the state the other left.\<close>

definition loadOnMount ::
  "PricingConfig \<Rightarrow> db_error + City list option \<Rightarrow> db_error + Route list option
     \<Rightarrow> db_error + LocalFare option \<Rightarrow> PricingConfig \<times> effect list" where
  "loadOnMount prev citiesResp routesResp faresResp =
     (let (p1, es1) = fetchCitiesAndRoutes prev citiesResp routesResp;
          (p2, es2) = fetchLocalFares p1 faresResp
      in (p2, es1 @ es2))"

subsection \<open>Mutations\<close>

definition updatePricing :: "PricingConfig \<Rightarrow> PricingConfig \<Rightarrow> PricingConfig \<times> effect list" where
  "updatePricing prev newPricing = (newPricing, [LocalStorageSetPricing newPricing])"

definition addCity ::
  "PricingConfig \<Rightarrow> string \<Rightarrow> db_error + City \<Rightarrow> PricingConfig \<times> effect list \<times> bool" where
  "addCity prev cityName resp =
     (case resp of
        Inr data \<Rightarrow>
          (prev\<lparr>cities := cities prev @ [data]\<rparr>, [ToastSuccess ''City added successfully''], True)
      | Inl error \<Rightarrow>
          (prev,
           [ConsoleError ''Error adding city:'',
            if err_code error = Some ''23505'' then ToastError ''City already exists''
            else ToastError ''Failed to add city''],
           False))"

definition removeCity ::
  "PricingConfig \<Rightarrow> string \<Rightarrow> db_error option \<Rightarrow> PricingConfig \<times> effect list \<times> bool" where
  "removeCity prev cityId resp =
     (case resp of
        None \<Rightarrow>
          (prev\<lparr>cities := filter (\<lambda>c. city_id c \<noteq> cityId) (cities prev)\<rparr>,
           [ToastSuccess ''City removed successfully''], True)
      | Some error \<Rightarrow>
          (prev, [ConsoleError ''Error removing city:'', ToastError ''Failed to remove city''],
           False))"

definition addRoute ::
  "PricingConfig \<Rightarrow> string \<Rightarrow> string \<Rightarrow> number \<Rightarrow> number \<Rightarrow> db_error + Route
     \<Rightarrow> PricingConfig \<times> effect list \<times> bool" where
  "addRoute prev fromCity toCity fourSeaterPrice sixSeaterPrice resp =
     (case resp of
        Inr data \<Rightarrow>
          (prev\<lparr>routes := routes prev @ [data]\<rparr>, [ToastSuccess ''Route added successfully''],
           True)
      | Inl error \<Rightarrow>
          (prev,
           [ConsoleError ''Error adding route:'',
            if err_code error = Some ''23505'' then ToastError ''Route already exists''
            else ToastError ''Failed to add route''],
           False))"

definition updateRoute ::
  "PricingConfig \<Rightarrow> string \<Rightarrow> number \<Rightarrow> number \<Rightarrow> db_error + Route
     \<Rightarrow> PricingConfig \<times> effect list \<times> bool" where
  "updateRoute prev routeId fourSeaterPrice sixSeaterPrice resp =
     (case resp of
        Inr data \<Rightarrow>
          (prev\<lparr>routes := map (\<lambda>r. if route_id r = routeId then data else r) (routes prev)\<rparr>,
           [ToastSuccess ''Route updated successfully''], True)
      | Inl error \<Rightarrow>
          (prev, [ConsoleError ''Error updating route:'', ToastError ''Failed to update route''],
           False))"

definition deleteRoute ::
  "PricingConfig \<Rightarrow> string \<Rightarrow> db_error option \<Rightarrow> PricingConfig \<times> effect list \<times> bool" where
  "deleteRoute prev routeId resp =
     (case resp of
        None \<Rightarrow>
          (prev\<lparr>routes := filter (\<lambda>r. route_id r \<noteq> routeId) (routes prev)\<rparr>,
           [ToastSuccess ''Route deleted successfully''], True)
      | Some error \<Rightarrow>
          (prev, [ConsoleError ''Error deleting route:'', ToastError ''Failed to delete route''],
           False))"

subsection \<open>The remote \<open>routes\<close> table\<close>

text \<open>
  The request \<open>updateRoute\<close> sends is
  \<open>from('routes').update({price_4_seater, price_6_seater}).eq('id', routeId).select().single()\<close>:
  its payload holds the two price fields only.
\<close>

definition update_payload :: "number \<Rightarrow> number \<Rightarrow> Route \<Rightarrow> Route" where
  "update_payload fourSeaterPrice sixSeaterPrice r =
     r\<lparr>price_4_seater := fourSeaterPrice, price_6_seater := sixSeaterPrice\<rparr>"

text \<open>
  Modelled from the spec: the remote table store is an external collaborator and no code
  of it is in the repository. Its update-and-return (section 6 of the spec) patches the
  rows the filter selects with the payload and returns them; \<open>single()\<close> reports an error
  unless exactly one row comes back. The table is the list of its rows.
\<close>

definition store_update_route ::
  "Route list \<Rightarrow> string \<Rightarrow> number \<Rightarrow> number \<Rightarrow> Route list \<times> (db_error + Route)" where
  "store_update_route tbl routeId fourSeaterPrice sixSeaterPrice =
     (let tbl' = map (\<lambda>r. if route_id r = routeId
                            then update_payload fourSeaterPrice sixSeaterPrice r else r) tbl
      in case filter (\<lambda>r. route_id r = routeId) tbl' of
           [row] \<Rightarrow> (tbl', Inr row)
         | _ \<Rightarrow> (tbl', Inl (DbError (Some ''PGRST116''))))"

text \<open>\<open>updateRoute\<close> run against the table: the request, then the handling of its response.\<close>

definition updateRoute_on_store ::
  "Route list \<Rightarrow> PricingConfig \<Rightarrow> string \<Rightarrow> number \<Rightarrow> number
     \<Rightarrow> Route list \<times> PricingConfig \<times> effect list \<times> bool" where
  "updateRoute_on_store tbl prev routeId fourSeaterPrice sixSeaterPrice =
     (let (tbl', resp) = store_update_route tbl routeId fourSeaterPrice sixSeaterPrice
      in (tbl', updateRoute prev routeId fourSeaterPrice sixSeaterPrice resp))"

section \<open>The booking form (MumbaiLocalBooking.tsx)\<close>

subsection \<open>Validation helpers\<close>

text \<open>\<open>/^\d{10}$/\<close>\<close>

definition phoneRegex :: rx where
  "phoneRegex = rx_times 10 (Class rx_digit)"

definition isValidPhoneNumber :: "string \<Rightarrow> bool" where
  "isValidPhoneNumber phone = rx_test phoneRegex phone"

text \<open>\<open>/^[^\s@]+@[^\s@]+\.[^\s@]+$/\<close>\<close>

definition emailRegex :: rx where
  "emailRegex =
     Seq (rx_plus (Class rx_not_space_at))
       (Seq (Class (rx_char CHR ''@''))
          (Seq (rx_plus (Class rx_not_space_at))
             (Seq (Class (rx_char CHR ''.'')) (rx_plus (Class rx_not_space_at)))))"

definition isValidEmail :: "string \<Rightarrow> bool" where
  "isValidEmail email = rx_test emailRegex email"

subsection \<open>The straight-line distance\<close>

record Coordinates =
  lat :: number
  lng :: number

text \<open>
  \<open>calculateStraightLineDistance\<close>, operator by operator in the order JavaScript evaluates
  them (\<open>*\<close> and \<open>/\<close> associate to the left).
\<close>

definition calculateStraightLineDistance :: "engine \<Rightarrow> Coordinates \<Rightarrow> Coordinates \<Rightarrow> number" where
  "calculateStraightLineDistance eng pickup dropC =
     (let R = Fin 6371;
          dLat = n_div (rnd eng)
                   (n_mul (rnd eng) (n_sub (rnd eng) (lat dropC) (lat pickup)) (Math_PI eng))
                   (Fin 180);
          dLng = n_div (rnd eng)
                   (n_mul (rnd eng) (n_sub (rnd eng) (lng dropC) (lng pickup)) (Math_PI eng))
                   (Fin 180);
          a = n_add (rnd eng)
                (n_mul (rnd eng) (Math_sin eng (n_div (rnd eng) dLat (Fin 2)))
                                 (Math_sin eng (n_div (rnd eng) dLat (Fin 2))))
                (n_mul (rnd eng)
                   (n_mul (rnd eng)
                      (n_mul (rnd eng)
                         (Math_cos eng (n_div (rnd eng)
                            (n_mul (rnd eng) (lat pickup) (Math_PI eng)) (Fin 180)))
                         (Math_cos eng (n_div (rnd eng)
                            (n_mul (rnd eng) (lat dropC) (Math_PI eng)) (Fin 180))))
                      (Math_sin eng (n_div (rnd eng) dLng (Fin 2))))
                   (Math_sin eng (n_div (rnd eng) dLng (Fin 2))));
          c = n_mul (rnd eng) (Fin 2)
                (Math_atan2 eng (Math_sqrt eng a) (Math_sqrt eng (n_sub (rnd eng) (Fin 1) a)))
      in n_div (rnd eng)
           (Math_round (n_mul (rnd eng) (n_mul (rnd eng) R c) (Fin 100)))
           (Fin 100))"

text \<open>
  The reference the fallback is compared with, following the spec's words: the
  great-circle distance by the haversine formula on a sphere of radius 6371 km, for
  coordinates in degrees, and the rounding to two decimals.
\<close>

definition haversine :: "real \<Rightarrow> real" where
  "haversine \<theta> = (sin (\<theta> / 2))\<^sup>2"

definition radians :: "real \<Rightarrow> real" where
  "radians deg = deg * pi / 180"

definition great_circle_km_spec :: "real \<Rightarrow> real \<Rightarrow> real \<Rightarrow> real \<Rightarrow> real" where
  "great_circle_km_spec lat1 lng1 lat2 lng2 =
     2 * 6371 *
       arcsin (sqrt (haversine (radians lat2 - radians lat1) +
                     cos (radians lat1) * cos (radians lat2) *
                     haversine (radians lng2 - radians lng1)))"

definition round_2_decimals_spec :: "real \<Rightarrow> real" where
  "round_2_decimals_spec x = of_int (round (x * 100)) / 100"

text \<open>The haversine of the central angle between two points, from their latitudes and
  the difference of their longitudes (in radians).\<close>

definition hav_arg :: "real \<Rightarrow> real \<Rightarrow> real \<Rightarrow> real" where
  "hav_arg phi1 phi2 dlam = haversine (phi2 - phi1) + cos phi1 * cos phi2 * haversine dlam"

text \<open>A latitude and a longitude in degrees.\<close>

definition is_coordinates :: "Coordinates \<Rightarrow> bool" where
  "is_coordinates p =
     (case (lat p, lng p) of
        (Fin a, Fin b) \<Rightarrow> \<bar>a\<bar> \<le> 90 \<and> \<bar>b\<bar> \<le> 180
      | _ \<Rightarrow> False)"

subsection \<open>Component state\<close>

record Booking =
  customerName :: string
  customerPhone :: string
  customerEmail :: string
  pickup :: string
  drop_loc :: string
  carType :: string
  tripType :: string
  date :: string
  time :: string

record FormState =
  booking :: Booking
  pickupCoords :: "Coordinates option"
  dropCoords :: "Coordinates option"
  distance :: number
  duration :: number
  isCalculating :: bool
  mumbaiLocalRates :: "LocalFare option"

text \<open>The initial values of the component's \<open>useState\<close> hooks.\<close>

definition initialBooking :: Booking where
  "initialBooking =
     \<lparr>customerName = [], customerPhone = [], customerEmail = [], pickup = [], drop_loc = [],
      carType = ''4-seater'', tripType = ''normal'', date = [], time = []\<rparr>"

definition initialState :: FormState where
  "initialState =
     \<lparr>booking = initialBooking, pickupCoords = None, dropCoords = None, distance = Fin 0,
      duration = Fin 0, isCalculating = False, mumbaiLocalRates = None\<rparr>"

subsection \<open>The route details\<close>

text \<open>
  What \<open>fetch\<close> of the distance service settles to: it throws (\<open>FetchThrows\<close>), or answers
  with a status that is not \<open>ok\<close>, or answers \<open>ok\<close> with a body that \<open>response.json()\<close>
  rejects, or with a body holding \<open>distance\<close> and \<open>duration\<close>.
\<close>

datatype distance_response =
    FetchThrows
  | NotOk nat
  | OkBadJson
  | OkJson number number

definition calculateRouteDetails ::
  "engine \<Rightarrow> FormState \<Rightarrow> Coordinates \<Rightarrow> Coordinates \<Rightarrow> distance_response
     \<Rightarrow> FormState \<times> effect list" where
  "calculateRouteDetails eng s pickupC dropC resp =
     (case resp of
        OkJson result_distance result_duration \<Rightarrow>
          (s\<lparr>distance := result_distance, duration := result_duration, isCalculating := False\<rparr>,
           [])
      | _ \<Rightarrow>
          (let straightDistance = calculateStraightLineDistance eng pickupC dropC
           in (s\<lparr>distance := straightDistance,
                  duration := Math_round (n_mul (rnd eng) straightDistance (Fin 3)),
                  isCalculating := False\<rparr>,
               [ConsoleError ''Error calculating route with Google Distance Matrix:''])))"

subsection \<open>The fare\<close>

record FareDetails =
  ratePerKm :: number
  total :: number
  isMinimumFare :: bool

definition getFare :: "FormState \<Rightarrow> FareDetails option" where
  "getFare s =
     (if distance s = Fin 0 then None
      else case mumbaiLocalRates s of
        None \<Rightarrow> None
      | Some rates \<Rightarrow>
          (let ratePerKm =
                 (if tripType (booking s) = ''airport''
                  then (if carType (booking s) = ''4-seater''
                        then airport_4_seater_rate_per_km rates
                        else airport_6_seater_rate_per_km rates)
                  else (if carType (booking s) = ''4-seater''
                        then normal_4_seater_rate_per_km rates
                        else normal_6_seater_rate_per_km rates));
               totalFare = Math_round (n_mul fl (distance s) ratePerKm);
               isMinimumFare = n_less totalFare (Fin 100)
           in Some \<lparr>ratePerKm = ratePerKm,
                     total = (if isMinimumFare then Fin 100 else totalFare),
                     isMinimumFare = isMinimumFare\<rparr>))"

text \<open>
  The rate table in the spec's words: two trip types, two car types, four rate fields.
\<close>

datatype TripType = Normal | Airport

datatype CarType = FourSeater | SixSeater

fun tripType_str :: "TripType \<Rightarrow> string" where
  "tripType_str Normal = ''normal''"
| "tripType_str Airport = ''airport''"

fun carType_str :: "CarType \<Rightarrow> string" where
  "carType_str FourSeater = ''4-seater''"
| "carType_str SixSeater = ''6-seater''"

fun selectedRate_spec :: "TripType \<Rightarrow> CarType \<Rightarrow> LocalFare \<Rightarrow> number" where
  "selectedRate_spec Normal FourSeater rates = normal_4_seater_rate_per_km rates"
| "selectedRate_spec Normal SixSeater rates = normal_6_seater_rate_per_km rates"
| "selectedRate_spec Airport FourSeater rates = airport_4_seater_rate_per_km rates"
| "selectedRate_spec Airport SixSeater rates = airport_6_seater_rate_per_km rates"

subsection \<open>Submission\<close>

text \<open>\<open>getFare()?.total || 0\<close>: the total, and 0 when there is no fare or the total is
  falsy (0 or \<open>NaN\<close>).\<close>

definition fare_total_or_0 :: "FormState \<Rightarrow> number" where
  "fare_total_or_0 s =
     (case getFare s of
        None \<Rightarrow> Fin 0
      | Some f \<Rightarrow> if total f = NaN \<or> total f = Fin 0 then Fin 0 else total f)"

definition booking_row :: "FormState \<Rightarrow> BookingRow" where
  "booking_row s =
     \<lparr>customer_id = ''guest'',
      customer_name = customerName (booking s),
      customer_phone = customerPhone (booking s),
      customer_email =
        (if customerEmail (booking s) = [] then None else Some (customerEmail (booking s))),
      service_type = ''mumbai-local'',
      from_location = pickup (booking s),
      to_location = drop_loc (booking s),
      car_type = carType (booking s),
      travel_date = date (booking s),
      travel_time = time (booking s),
      estimated_price = fare_total_or_0 s,
      status = ''pending''\<rparr>"

text \<open>
  \<open>saveBookingToDatabase\<close>: the call builds the row and starts the insert; \<open>resp\<close> is the
  \<open>error\<close> the insert settles to (or what it throws). The result is the effect of the
  call, the effects once the insert has settled, and the boolean the promise resolves
  to. The component file binds \<open>supabase\<close> to a stand-in whose insert always settles
  without an error and asks for it to be replaced by the real client, so the response is
  a parameter here.
\<close>

definition saveBookingToDatabase ::
  "FormState \<Rightarrow> db_error option \<Rightarrow> effect list \<times> effect list \<times> bool" where
  "saveBookingToDatabase s resp =
     ([InsertBooking (booking_row s)],
      (case resp of None \<Rightarrow> [] | Some error \<Rightarrow> [ConsoleError ''Error saving booking:'']),
      resp = None)"

definition whatsapp_message :: "FormState \<Rightarrow> WhatsAppMessage" where
  "whatsapp_message s =
     \<lparr>msg_customer = customerName (booking s),
      msg_phone = customerPhone (booking s),
      msg_email =
        (if customerEmail (booking s) = [] then ''Not provided'' else customerEmail (booking s)),
      msg_pickup = pickup (booking s),
      msg_drop = drop_loc (booking s),
      msg_distance = distance s,
      msg_duration = duration s,
      msg_car_type = carType (booking s),
      msg_date = date (booking s),
      msg_time = time (booking s),
      msg_service_type =
        (if tripType (booking s) = ''airport'' then ''Airport Transfer'' else ''Local Ride''),
      msg_estimated_price = fare_total_or_0 s\<rparr>"

text \<open>
  \<open>handleSubmit\<close>: the four checks in the source's order, each returning after its toast.
  Past them the save is started and not awaited, the message is built and the link is
  opened; the \<open>then\<close> callback of the save runs after the handler has returned.
\<close>

definition handleSubmit :: "FormState \<Rightarrow> db_error option \<Rightarrow> effect list" where
  "handleSubmit s saveResp =
     (if customerName (booking s) = [] \<or> customerPhone (booking s) = [] \<or>
         pickup (booking s) = [] \<or> drop_loc (booking s) = [] \<or>
         date (booking s) = [] \<or> time (booking s) = []
      then [ToastError ''Please fill all required fields'']
      else if \<not> isValidPhoneNumber (customerPhone (booking s))
      then [ToastError ''Please enter a valid 10-digit phone number.'']
      else if customerEmail (booking s) \<noteq> [] \<and> \<not> isValidEmail (customerEmail (booking s))
      then [ToastError ''Please enter a valid email address.'']
      else if distance s = Fin 0
      then [ToastError ''Unable to calculate distance. Please check your locations.'']
      else
        (let (started, settled, saved) = saveBookingToDatabase s saveResp
         in started @
            [WindowOpen (whatsapp_message s),
             ToastSuccess ''Redirecting to WhatsApp for booking confirmation''] @
            settled @
            (if \<not> saved then [ToastError ''Failed to save booking. Please try again.'']
             else [])))"

text \<open>The validation failures in the spec's words.\<close>

definition missing_required_field_spec :: "Booking \<Rightarrow> bool" where
  "missing_required_field_spec b =
     ([] \<in> set [customerName b, customerPhone b, pickup b, drop_loc b, date b, time b])"

definition ten_digits_spec :: "string \<Rightarrow> bool" where
  "ten_digits_spec phone = (length phone = 10 \<and> list_all rx_digit phone)"

definition validation_failure_spec :: "FormState \<Rightarrow> bool" where
  "validation_failure_spec s =
     (missing_required_field_spec (booking s) \<or>
      \<not> ten_digits_spec (customerPhone (booking s)) \<or>
      (customerEmail (booking s) \<noteq> [] \<and> \<not> isValidEmail (customerEmail (booking s))) \<or>
      distance s = Fin 0)"

fun is_handoff :: "effect \<Rightarrow> bool" where
  "is_handoff (InsertBooking row) = True"
| "is_handoff (WindowOpen m) = True"
| "is_handoff e = False"

text \<open>
  The cache agrees with the table: for every route they both hold (by id) the cities are
  the same. A cache loaded from the table agrees with it; \<open>updatePricing\<close> stores any
  configuration without a request, so the agreement is not an invariant of the program.
\<close>

definition cache_agrees :: "Route list \<Rightarrow> PricingConfig \<Rightarrow> bool" where
  "cache_agrees tbl p =
     list_all (\<lambda>r. list_all (\<lambda>row. route_id row = route_id r \<longrightarrow>
                  from_city row = from_city r \<and> to_city row = to_city r) tbl) (routes p)"

section \<open>Sample data\<close>

text \<open>The rates of the spec's end-to-end scenario, and a filled form.\<close>

definition scenario_rates :: LocalFare where
  "scenario_rates =
     \<lparr>fare_id = ''1'', service_area = ''Mumbai Local'',
      normal_4_seater_rate_per_km = Fin 15, normal_6_seater_rate_per_km = Fin 18,
      airport_4_seater_rate_per_km = Fin 18, airport_6_seater_rate_per_km = Fin 22\<rparr>"

definition filledBooking :: Booking where
  "filledBooking =
     \<lparr>customerName = ''Asha'', customerPhone = ''1234567890'', customerEmail = [],
      pickup = ''Andheri'', drop_loc = ''Bandra'', carType = ''4-seater'', tripType = ''normal'',
      date = ''2025-01-15'', time = ''10:30''\<rparr>"

definition filledState :: FormState where
  "filledState =
     \<lparr>booking = filledBooking, pickupCoords = None, dropCoords = None, distance = Fin 40,
      duration = Fin 60, isCalculating = False, mumbaiLocalRates = Some scenario_rates\<rparr>"

definition mumbai_pune :: Route where
  "mumbai_pune =
     \<lparr>route_id = ''r1'', from_city = ''Mumbai'', to_city = ''Pune'',
      price_4_seater = Fin 2500, price_6_seater = Fin 3500\<rparr>"

definition mumbai_nashik :: Route where
  "mumbai_nashik =
     \<lparr>route_id = ''r2'', from_city = ''Mumbai'', to_city = ''Nashik'',
      price_4_seater = Fin 3000, price_6_seater = Fin 4200\<rparr>"

definition pune :: City where
  "pune = \<lparr>city_id = ''c1'', city_name = ''Pune''\<rparr>"

text \<open>The binary64 value nearest to 7.1, and two points on the equator \<open>5 / 65536\<close> degrees
  of longitude (about 8.5 m) apart.\<close>

definition double_7_1 :: real where
  "double_7_1 = 3996944669291315 / 562949953421312"

definition equator_origin :: Coordinates where
  "equator_origin = \<lparr>lat = Fin 0, lng = Fin 0\<rparr>"

definition equator_near :: Coordinates where
  "equator_near = \<lparr>lat = Fin 0, lng = Fin (5 / 65536)\<rparr>"

text \<open>The binary64 value nearest to 0.01.\<close>

definition double_0_01 :: real where
  "double_0_01 = 5764607523034235 / 576460752303423488"

section \<open>The regular expression matcher\<close>

lemma rx_test_Never: "rx_test Never s = False"
  by (induction s) auto

lemma rx_test_Seq_Never: "rx_test (Seq Never r) s = False"
  by (induction s) auto

lemma rx_test_Alt: "rx_test (Alt a b) s = (rx_test a s \<or> rx_test b s)"
  by (induction s arbitrary: a b) auto

lemma rx_test_Seq_Empty: "rx_test (Seq Empty r) s = rx_test r s"
  by (cases s) (auto simp: rx_test_Alt rx_test_Seq_Never)

lemma rx_test_Seq_Class:
  "rx_test (Seq (Class P) r) s = (case s of [] \<Rightarrow> False | c # cs \<Rightarrow> P c \<and> rx_test r cs)"
  by (cases s) (auto simp: rx_test_Seq_Never rx_test_Seq_Empty)

text \<open>\<open>P{n}\<close> matches the strings of \<open>n\<close> characters of the class \<open>P\<close>.\<close>

lemma rx_test_times_Class:
  "rx_test (rx_times n (Class P)) s = (length s = n \<and> list_all P s)"
proof (induction n arbitrary: s)
  case 0
  show ?case by (cases s) (simp_all add: rx_test_Never)
next
  case (Suc n)
  show ?case
  proof (cases s)
    case Nil
    then show ?thesis by simp
  next
    case (Cons c cs)
    have "rx_test (rx_times (Suc n) (Class P)) (c # cs) =
          (P c \<and> rx_test (rx_times n (Class P)) cs)"
      unfolding rx_times.simps rx_test_Seq_Class by simp
    with Suc.IH [of cs] Cons show ?thesis by auto
  qed
qed

lemma isValidPhoneNumber_iff: "isValidPhoneNumber phone = ten_digits_spec phone"
  by (simp add: isValidPhoneNumber_def phoneRegex_def ten_digits_spec_def rx_test_times_Class)

section \<open>Binary64 rounding\<close>

lemma pow2_powr: "pow2 e = 2 powr (of_int e)"
  by (simp add: pow2_def powr_int)

lemma pow2_pos: "0 < pow2 e"
  by (simp add: pow2_powr)

lemma pow2_add: "pow2 (a + b) = pow2 a * pow2 b"
  by (simp add: pow2_powr powr_add)

lemma pow2_mono: "a \<le> b \<Longrightarrow> pow2 a \<le> pow2 b"
  by (simp add: pow2_powr)

lemma binade_eqI:
  assumes "pow2 k \<le> \<bar>x\<bar>" "\<bar>x\<bar> < pow2 (k + 1)" "- 1022 \<le> k"
  shows "binade x = k"
proof -
  have "0 < \<bar>x\<bar>" using assms(1) pow2_pos [of k] by linarith
  then have "\<lfloor>log 2 \<bar>x\<bar>\<rfloor> = k"
    using assms(1,2) by (simp add: floor_log_eq_powr_iff pow2_powr)
  with assms(3) show ?thesis by (simp add: binade_def)
qed

lemma fl_eqI:
  assumes "pow2 k \<le> \<bar>x\<bar>" "\<bar>x\<bar> < pow2 (k + 1)" "- 1022 \<le> k"
    and "round_half_even (x / pow2 (k - 52)) = n"
    and "\<bar>of_int n * pow2 (k - 52)\<bar> < 2 ^ 1024"
  shows "fl x = Fin (of_int n * pow2 (k - 52))"
proof -
  have "x \<noteq> 0" using assms(1) pow2_pos [of k] by auto
  with binade_eqI [OF assms(1-3)] assms(4,5) show ?thesis
    by (simp add: fl_def Let_def)
qed


lemma round_half_even_err: "\<bar>of_int (round_half_even r) - r\<bar> \<le> 1 / 2"
  unfolding round_half_even_def Let_def by (auto; linarith)

lemma binade_ge: "- 1022 \<le> binade x"
  by (simp add: binade_def)

lemma pow2_binade_le:
  assumes "pow2 (- 1022) \<le> \<bar>x\<bar>"
  shows "pow2 (binade x) \<le> \<bar>x\<bar>"
proof -
  have pos: "0 < \<bar>x\<bar>" using assms pow2_pos [of "- 1022"] by linarith
  from assms have "real_of_int (- 1022) \<le> log 2 \<bar>x\<bar>"
    using pos by (simp add: le_log_iff pow2_powr)
  then have "- 1022 \<le> \<lfloor>log 2 \<bar>x\<bar>\<rfloor>" by (simp add: le_floor_iff)
  then have b: "binade x = \<lfloor>log 2 \<bar>x\<bar>\<rfloor>" by (simp add: binade_def)
  have "2 powr (of_int \<lfloor>log 2 \<bar>x\<bar>\<rfloor>) \<le> 2 powr (log 2 \<bar>x\<bar>)"
    by (intro powr_mono) auto
  also have "\<dots> = \<bar>x\<bar>" using pos by simp
  finally show ?thesis by (simp add: b pow2_powr)
qed

lemma fl_abs_err:
  assumes "x \<noteq> 0"
  defines "y \<equiv> of_int (round_half_even (x / pow2 (binade x - 52))) * pow2 (binade x - 52)"
  shows "\<bar>y - x\<bar> \<le> pow2 (binade x - 53)"
proof -
  let ?u = "pow2 (binade x - 52)"
  have u: "0 < ?u" by (rule pow2_pos)
  have "y - x = (of_int (round_half_even (x / ?u)) - x / ?u) * ?u"
    using u by (simp add: y_def left_diff_distrib)
  then have "\<bar>y - x\<bar> = \<bar>of_int (round_half_even (x / ?u)) - x / ?u\<bar> * ?u"
    using u by (simp add: abs_mult)
  also have "\<dots> \<le> 1 / 2 * ?u"
    using u round_half_even_err [of "x / ?u"] by (intro mult_right_mono) auto
  also have "\<dots> = pow2 (binade x - 53)"
    using pow2_add [of "binade x - 53" 1] by (simp add: pow2_def)
  finally show ?thesis .
qed

lemma fl_Fin_or_Inf:
  "x \<noteq> 0 \<Longrightarrow>
   \<bar>of_int (round_half_even (x / pow2 (binade x - 52))) * pow2 (binade x - 52)\<bar> < 2 ^ 1024 \<Longrightarrow>
   fl x = Fin (of_int (round_half_even (x / pow2 (binade x - 52))) * pow2 (binade x - 52))"
  by (simp add: fl_def Let_def)

text \<open>In the normal range the result is within the relative error \<open>2^-53\<close>.\<close>

lemma fl_rel_err:
  assumes "pow2 (- 1022) \<le> \<bar>x\<bar>" "\<bar>x\<bar> < 2 ^ 1023"
  shows "\<exists>y. fl x = Fin y \<and> \<bar>y - x\<bar> \<le> \<bar>x\<bar> / 2 ^ 53"
proof -
  let ?y = "of_int (round_half_even (x / pow2 (binade x - 52))) * pow2 (binade x - 52)"
  have nz: "x \<noteq> 0" using assms(1) pow2_pos [of "- 1022"] by auto
  have "pow2 (binade x - 53) = pow2 (binade x) / 2 ^ 53"
    using pow2_add [of "binade x" "- 53"] by (simp add: pow2_def)
  also have "\<dots> \<le> \<bar>x\<bar> / 2 ^ 53"
    using pow2_binade_le [OF assms(1)] by (simp add: divide_right_mono)
  finally have err: "\<bar>?y - x\<bar> \<le> \<bar>x\<bar> / 2 ^ 53"
    using fl_abs_err [OF nz] by linarith
  have "\<bar>?y\<bar> \<le> \<bar>x\<bar> + \<bar>x\<bar> / 2 ^ 53" using err by linarith
  also have "\<dots> \<le> \<bar>x\<bar> * 2" by (simp add: field_simps)
  also have "\<dots> < 2 ^ 1024" using assms(2) by simp
  finally have "fl x = Fin ?y" using fl_Fin_or_Inf [OF nz] by simp
  with err show ?thesis by blast
qed

lemma fl_pos_bounds:
  assumes "lo \<le> x" "x \<le> hi" "1 / 2 ^ 100 \<le> lo" "hi \<le> 2 ^ 100"
  shows "\<exists>y. fl x = Fin y \<and> lo * (999 / 1000) \<le> y \<and> y \<le> hi * (1001 / 1000)"
proof -
  have lo: "0 < lo" using assms(3) by (smt (verit) zero_less_divide_1_iff zero_less_numeral zero_less_power)
  have x: "0 < x" using lo assms(1) by linarith
  have "pow2 (- 1022) \<le> 1 / 2 ^ 100" by (simp add: pow2_def)
  then have 1: "pow2 (- 1022) \<le> \<bar>x\<bar>" using assms(1,3) x by linarith
  have "(2::real) ^ 100 < 2 ^ 1023" by simp
  then have 2: "\<bar>x\<bar> < 2 ^ 1023" using assms(2,4) x by linarith
  from fl_rel_err [OF 1 2] obtain y where y: "fl x = Fin y" "\<bar>y - x\<bar> \<le> \<bar>x\<bar> / 2 ^ 53" by blast
  have "\<bar>x\<bar> / 2 ^ 53 \<le> x / 1000" using x by (simp add: field_simps)
  with y(2) have "x - x / 1000 \<le> y" "y \<le> x + x / 1000" by linarith+
  moreover have "lo * (999 / 1000) \<le> x - x / 1000" using assms(1) by simp
  moreover have "x + x / 1000 \<le> hi * (1001 / 1000)" using assms(2) by simp
  ultimately show ?thesis using y(1) by (intro exI [of _ y]) linarith
qed

lemma fl_bounded:
  assumes "\<bar>x\<bar> \<le> B" "1 / 2 ^ 1000 \<le> B" "B \<le> 2 ^ 1000"
  shows "\<exists>v. fl x = Fin v \<and> \<bar>v\<bar> \<le> 2 * B"
proof (cases "x = 0")
  case True
  with assms show ?thesis by (simp add: fl_def)
next
  case False
  let ?y = "of_int (round_half_even (x / pow2 (binade x - 52))) * pow2 (binade x - 52)"
  have err: "\<bar>?y - x\<bar> \<le> pow2 (binade x - 53)" by (rule fl_abs_err [OF False])
  have "pow2 (binade x - 53) \<le> B"
  proof (cases "pow2 (- 1022) \<le> \<bar>x\<bar>")
    case True
    have "pow2 (binade x - 53) \<le> pow2 (binade x)" by (intro pow2_mono) simp
    with pow2_binade_le [OF True] assms(1) show ?thesis by linarith
  next
    case False
    have "0 < \<bar>x\<bar>" using \<open>x \<noteq> 0\<close> by simp
    have "log 2 \<bar>x\<bar> < real_of_int (- 1022)"
      using False \<open>0 < \<bar>x\<bar>\<close> by (simp add: log_less_iff pow2_powr)
    then have "\<lfloor>log 2 \<bar>x\<bar>\<rfloor> < - 1022" by (simp add: floor_less_iff)
    then have "binade x = - 1022" by (simp add: binade_def)
    then have "pow2 (binade x - 53) = 1 / 2 ^ 1075" by (simp add: pow2_def)
    also have "\<dots> \<le> 1 / 2 ^ 1000" by (simp add: field_simps)
    finally show ?thesis using assms(2) by linarith
  qed
  with err assms(1) have b: "\<bar>?y\<bar> \<le> 2 * B" by linarith
  also have "\<dots> < 2 ^ 1024" using assms(3) by simp
  finally have "fl x = Fin ?y" using fl_Fin_or_Inf [OF False] by simp
  with b show ?thesis by blast
qed

text \<open>Values used below.\<close>

lemma fl_1: "fl 1 = Fin 1"
  using fl_eqI [of 0 1 "2 ^ 52"] by (simp add: pow2_def round_half_even_def)

lemma fl_600: "fl 600 = Fin 600"
  using fl_eqI [of 9 600 "600 * 2 ^ 43"] by (simp add: pow2_def round_half_even_def)

lemma fl_720: "fl 720 = Fin 720"
  using fl_eqI [of 9 720 "720 * 2 ^ 43"] by (simp add: pow2_def round_half_even_def)

lemma fl_30: "fl 30 = Fin 30"
  using fl_eqI [of 4 30 "30 * 2 ^ 48"] by (simp add: pow2_def round_half_even_def)

lemma fl_66: "fl 66 = Fin 66"
  using fl_eqI [of 6 66 "66 * 2 ^ 46"] by (simp add: pow2_def round_half_even_def)

text \<open>The product of the binary64 value nearest to 7.1 and 15 is a little below 106.5 and
  rounds to 106.5.\<close>

lemma fl_7_1_times_15: "fl (double_7_1 * 15) = Fin (213 / 2)"
  using fl_eqI [of 6 "double_7_1 * 15" 7494271254921216]
  by (simp add: pow2_def round_half_even_def double_7_1_def)

lemma fl_one_hundredth: "fl (1 / 100) = Fin double_0_01"
  using fl_eqI [of "- 7" "1 / 100" 5764607523034235]
  by (simp add: pow2_def round_half_even_def double_0_01_def)

section \<open>Bounds on the sine and the arc tangent\<close>

lemma cos_ge_quadratic: "1 - x\<^sup>2 / 2 \<le> cos (x::real)"
proof -
  have "\<bar>sin (x / 2)\<bar> \<le> \<bar>x / 2\<bar>" by (rule abs_sin_x_le_abs_x)
  then have "(sin (x / 2))\<^sup>2 \<le> (x / 2)\<^sup>2" by (simp add: abs_le_square_iff [symmetric])
  with cos_double_sin [of "x / 2"] show ?thesis by (simp add: power2_eq_square)
qed

lemma sin_ge_cubic:
  assumes "0 \<le> (x::real)"
  shows "x - x ^ 3 / 6 \<le> sin x"
proof -
  let ?h = "\<lambda>t::real. sin t - t + t ^ 3 / 6"
  have "?h 0 \<le> ?h x"
  proof (rule DERIV_nonneg_imp_nondecreasing [OF assms])
    fix t :: real
    assume "0 \<le> t" "t \<le> x"
    have "(?h has_real_derivative (cos t - 1 + t\<^sup>2 / 2)) (at t)"
      by (auto intro!: derivative_eq_intros simp: power2_eq_square)
    moreover have "0 \<le> cos t - 1 + t\<^sup>2 / 2" using cos_ge_quadratic [of t] by simp
    ultimately show "\<exists>y. (?h has_real_derivative y) (at t) \<and> 0 \<le> y" by blast
  qed
  then show ?thesis by simp
qed

lemma arctan_le_self:
  assumes "0 \<le> (t::real)"
  shows "arctan t \<le> t"
proof -
  let ?g = "\<lambda>u::real. u - arctan u"
  have "?g 0 \<le> ?g t"
  proof (rule DERIV_nonneg_imp_nondecreasing [OF assms])
    fix u :: real
    assume "0 \<le> u" "u \<le> t"
    have "(?g has_real_derivative (1 - 1 / (1 + u\<^sup>2))) (at u)"
      by (auto intro!: derivative_eq_intros simp: field_simps)
    moreover have "0 \<le> 1 - 1 / (1 + u\<^sup>2)"
    proof -
      have "0 < 1 + u\<^sup>2" by (simp add: add_pos_nonneg)
      then show ?thesis by (simp add: divide_le_eq_1)
    qed
    ultimately show "\<exists>y. (?g has_real_derivative y) (at u) \<and> 0 \<le> y" by blast
  qed
  then show ?thesis by simp
qed

lemma arctan_ge_cubic:
  assumes "0 \<le> (t::real)"
  shows "t - t ^ 3 / 3 \<le> arctan t"
proof -
  let ?g = "\<lambda>u::real. arctan u - u + u ^ 3 / 3"
  have "?g 0 \<le> ?g t"
  proof (rule DERIV_nonneg_imp_nondecreasing [OF assms])
    fix u :: real
    assume "0 \<le> u" "u \<le> t"
    have "(?g has_real_derivative (1 / (1 + u\<^sup>2) - 1 + u\<^sup>2)) (at u)"
      by (auto intro!: derivative_eq_intros simp: field_simps)
    moreover have "0 \<le> 1 / (1 + u\<^sup>2) - 1 + u\<^sup>2"
    proof -
      have pos: "0 < 1 + u\<^sup>2" by (simp add: add_pos_nonneg)
      have "(1 / (1 + u\<^sup>2) - 1 + u\<^sup>2) * (1 + u\<^sup>2) = (u\<^sup>2)\<^sup>2"
        using pos by (simp add: algebra_simps power2_eq_square)
      then have "1 / (1 + u\<^sup>2) - 1 + u\<^sup>2 = (u\<^sup>2)\<^sup>2 / (1 + u\<^sup>2)"
        using pos by (simp add: eq_divide_eq)
      then show ?thesis using pos by simp
    qed
    ultimately show "\<exists>y. (?g has_real_derivative y) (at u) \<and> 0 \<le> y" by blast
  qed
  then show ?thesis by simp
qed

section \<open>The fare\<close>

lemma clamp_is_max_spec:
  "(if n_less t (Fin 100) then Fin 100 else t) = max_spec (Fin 100) t"
  by (cases t) auto

lemma Math_round_nearest:
  "\<exists>n. of_int n - 1 / 2 \<le> x \<and> x < of_int n + 1 / 2 \<and> Math_round (Fin x) = Fin (of_int n)"
  by (intro exI [of _ "\<lfloor>x + 1 / 2\<rfloor>"]) (simp; linarith)

lemma getFare_Some:
  assumes "distance s \<noteq> Fin 0" and "mumbaiLocalRates s = Some rates"
  shows "getFare s =
     (let r = (if tripType (booking s) = ''airport''
               then (if carType (booking s) = ''4-seater''
                     then airport_4_seater_rate_per_km rates
                     else airport_6_seater_rate_per_km rates)
               else (if carType (booking s) = ''4-seater''
                     then normal_4_seater_rate_per_km rates
                     else normal_6_seater_rate_per_km rates))
      in Some \<lparr>ratePerKm = r,
                total = max_spec (Fin 100) (Math_round (n_mul fl (distance s) r)),
                isMinimumFare = n_less (Math_round (n_mul fl (distance s) r)) (Fin 100)\<rparr>)"
  using assms by (simp add: getFare_def Let_def clamp_is_max_spec)

lemma positive_not_zero: "n_less (Fin 0) d \<Longrightarrow> d \<noteq> Fin 0"
  by auto

lemma getFare_table:
  assumes "n_less (Fin 0) (distance s)" and "mumbaiLocalRates s = Some rates"
    and "tripType (booking s) = tripType_str tt" and "carType (booking s) = carType_str ct"
  shows "getFare s =
        Some \<lparr>ratePerKm = selectedRate_spec tt ct rates,
              total = max_spec (Fin 100)
                (Math_round (n_mul fl (distance s) (selectedRate_spec tt ct rates))),
              isMinimumFare =
                n_less (Math_round (n_mul fl (distance s) (selectedRate_spec tt ct rates)))
                  (Fin 100)\<rparr>"
  using getFare_Some [OF positive_not_zero [OF assms(1)] assms(2)] assms(3,4)
  by (cases tt; cases ct) (simp_all add: Let_def)

lemma getFare_table_finite:
  assumes "n_less (Fin 0) (distance s)" and "mumbaiLocalRates s = Some rates"
    and "tripType (booking s) = tripType_str tt" and "carType (booking s) = carType_str ct"
    and "n_mul fl (distance s) (selectedRate_spec tt ct rates) = Fin x"
  shows "\<exists>n. of_int n - 1 / 2 \<le> x \<and> x < of_int n + 1 / 2 \<and>
     getFare s =
        Some \<lparr>ratePerKm = selectedRate_spec tt ct rates,
              total = Fin (of_int (max 100 n)), isMinimumFare = (n < 100)\<rparr>"
proof -
  from Math_round_nearest [of x] obtain n where n: "of_int n - 1 / 2 \<le> x" "x < of_int n + 1 / 2"
    "Math_round (Fin x) = Fin (of_int n)" by blast
  have m: "max_spec (Fin 100) (Fin (real_of_int n)) = Fin (of_int (max 100 n))"
    by (simp add: max_def)
  have l: "n_less (Fin (real_of_int n)) (Fin 100) = (n < 100)"
    by simp
  have "getFare s =
        Some \<lparr>ratePerKm = selectedRate_spec tt ct rates,
              total = Fin (of_int (max 100 n)), isMinimumFare = (n < 100)\<rparr>"
    unfolding getFare_table [OF assms(1-4)] assms(5) n(3) m l ..
  with n(1,2) show ?thesis by blast
qed

lemma getFare_scenario:
  assumes "distance s = Fin d" and "d \<noteq> 0" and "mumbaiLocalRates s = Some rates"
    and "carType (booking s) = ''4-seater''"
  shows "tripType (booking s) = ''normal'' \<Longrightarrow> normal_4_seater_rate_per_km rates = Fin r \<Longrightarrow>
           getFare s = Some \<lparr>ratePerKm = Fin r, total = max_spec (Fin 100) (Math_round (fl (d * r))),
                              isMinimumFare = n_less (Math_round (fl (d * r))) (Fin 100)\<rparr>"
    and "tripType (booking s) = ''airport'' \<Longrightarrow> airport_4_seater_rate_per_km rates = Fin r \<Longrightarrow>
           getFare s = Some \<lparr>ratePerKm = Fin r, total = max_spec (Fin 100) (Math_round (fl (d * r))),
                              isMinimumFare = n_less (Math_round (fl (d * r))) (Fin 100)\<rparr>"
  using assms getFare_Some [of s rates] by (simp_all add: Let_def)

text \<open>
  C1. For a distance above 0 and loaded rates, \<open>getFare\<close> takes the rate per km from the
  two-by-two table over the trip type (normal, airport) and the car type (4-seater,
  6-seater), and returns the total \<open>max(100, round(distance * rate))\<close> with
  \<open>isMinimumFare\<close> set exactly when \<open>round(distance * rate)\<close> is below 100. The product
  is the binary64 product; when it is finite, \<open>round\<close> gives the integer \<open>n\<close> nearest to
  it (a tie upwards), the total is \<open>max 100 n\<close> and the flag is \<open>n < 100\<close>. With
  \<open>normal_4 = 15\<close> and \<open>airport_4 = 18\<close>, 40 km in a 4-seater is 600 for a normal trip and
  720 for an airport trip, and 2 km at the rate 15 is the minimum fare 100.
\<close>

theorem getFare_rate_table_and_total:
  "(n_less (Fin 0) (distance s) \<and> mumbaiLocalRates s = Some rates \<and>
    tripType (booking s) = tripType_str tt \<and> carType (booking s) = carType_str ct \<longrightarrow>
      getFare s =
        Some \<lparr>ratePerKm = selectedRate_spec tt ct rates,
              total = max_spec (Fin 100)
                (Math_round (n_mul fl (distance s) (selectedRate_spec tt ct rates))),
              isMinimumFare =
                n_less (Math_round (n_mul fl (distance s) (selectedRate_spec tt ct rates)))
                  (Fin 100)\<rparr> \<and>
      (n_mul fl (distance s) (selectedRate_spec tt ct rates) = Fin x \<longrightarrow>
         (\<exists>n. of_int n - 1 / 2 \<le> x \<and> x < of_int n + 1 / 2 \<and>
            getFare s =
              Some \<lparr>ratePerKm = selectedRate_spec tt ct rates,
                    total = Fin (of_int (max 100 n)), isMinimumFare = (n < 100)\<rparr>))) \<and>
   (mumbaiLocalRates s = Some rates \<and> normal_4_seater_rate_per_km rates = Fin 15 \<and>
    airport_4_seater_rate_per_km rates = Fin 18 \<and> carType (booking s) = ''4-seater'' \<longrightarrow>
      (distance s = Fin 40 \<and> tripType (booking s) = ''normal'' \<longrightarrow>
         getFare s = Some \<lparr>ratePerKm = Fin 15, total = Fin 600, isMinimumFare = False\<rparr>) \<and>
      (distance s = Fin 40 \<and> tripType (booking s) = ''airport'' \<longrightarrow>
         getFare s = Some \<lparr>ratePerKm = Fin 18, total = Fin 720, isMinimumFare = False\<rparr>) \<and>
      (distance s = Fin 2 \<and> tripType (booking s) = ''normal'' \<longrightarrow>
         getFare s = Some \<lparr>ratePerKm = Fin 15, total = Fin 100, isMinimumFare = True\<rparr>))"
proof (intro conjI impI; (elim conjE)?)
  assume a: "n_less (Fin 0) (distance s)" "mumbaiLocalRates s = Some rates"
    "tripType (booking s) = tripType_str tt" "carType (booking s) = carType_str ct"
  show "getFare s =
        Some \<lparr>ratePerKm = selectedRate_spec tt ct rates,
              total = max_spec (Fin 100)
                (Math_round (n_mul fl (distance s) (selectedRate_spec tt ct rates))),
              isMinimumFare =
                n_less (Math_round (n_mul fl (distance s) (selectedRate_spec tt ct rates)))
                  (Fin 100)\<rparr>"
    by (rule getFare_table [OF a])
  assume "n_mul fl (distance s) (selectedRate_spec tt ct rates) = Fin x"
  then show "\<exists>n. of_int n - 1 / 2 \<le> x \<and> x < of_int n + 1 / 2 \<and>
            getFare s =
              Some \<lparr>ratePerKm = selectedRate_spec tt ct rates,
                    total = Fin (of_int (max 100 n)), isMinimumFare = (n < 100)\<rparr>"
    by (rule getFare_table_finite [OF a])
next
  assume "mumbaiLocalRates s = Some rates" "carType (booking s) = ''4-seater''"
    "normal_4_seater_rate_per_km rates = Fin 15" "distance s = Fin 40"
    "tripType (booking s) = ''normal''"
  then show "getFare s = Some \<lparr>ratePerKm = Fin 15, total = Fin 600, isMinimumFare = False\<rparr>"
    using getFare_scenario(1) [of s 40 rates 15] by (simp add: fl_600)
next
  assume "mumbaiLocalRates s = Some rates" "carType (booking s) = ''4-seater''"
    "airport_4_seater_rate_per_km rates = Fin 18" "distance s = Fin 40"
    "tripType (booking s) = ''airport''"
  then show "getFare s = Some \<lparr>ratePerKm = Fin 18, total = Fin 720, isMinimumFare = False\<rparr>"
    using getFare_scenario(2) [of s 40 rates 18] by (simp add: fl_720)
next
  assume "mumbaiLocalRates s = Some rates" "carType (booking s) = ''4-seater''"
    "normal_4_seater_rate_per_km rates = Fin 15" "distance s = Fin 2"
    "tripType (booking s) = ''normal''"
  then show "getFare s = Some \<lparr>ratePerKm = Fin 15, total = Fin 100, isMinimumFare = True\<rparr>"
    using getFare_scenario(1) [of s 2 rates 15] by (simp add: fl_30)
qed

text \<open>The witness runs 7.1 km at the rate 15: the binary64 product is 106.5 (the exact
  product is a little less), so the total is 107. It also runs 3 km in a 6-seater to the
  airport, at the rate 22: the minimum fare.\<close>

theorem getFare_rate_table_and_total_witness:
  "getFare (filledState\<lparr>distance := Fin double_7_1\<rparr>) =
     Some \<lparr>ratePerKm = Fin 15, total = Fin 107, isMinimumFare = False\<rparr> \<and>
   getFare (filledState\<lparr>booking := filledBooking\<lparr>carType := ''6-seater'', tripType := ''airport''\<rparr>,
                        distance := Fin 3\<rparr>) =
     Some \<lparr>ratePerKm = Fin 22, total = Fin 100, isMinimumFare = True\<rparr>"
proof
  let ?s = "filledState\<lparr>distance := Fin double_7_1\<rparr>"
  have prod: "n_mul fl (distance ?s) (selectedRate_spec Normal FourSeater scenario_rates) =
      Fin (213 / 2)"
    by (simp add: scenario_rates_def fl_7_1_times_15)
  have pos: "n_less (Fin 0) (distance ?s)"
    by (simp add: double_7_1_def)
  from getFare_rate_table_and_total [of ?s scenario_rates Normal FourSeater "213 / 2"] prod pos
  obtain n :: int where n: "of_int n - 1 / 2 \<le> (213 / 2 :: real)"
      "(213 / 2 :: real) < of_int n + 1 / 2"
    and fare: "getFare ?s =
      Some \<lparr>ratePerKm = selectedRate_spec Normal FourSeater scenario_rates,
            total = Fin (of_int (max 100 n)), isMinimumFare = (n < 100)\<rparr>"
    by (auto simp: filledState_def filledBooking_def)
  from n have "n = 107" by linarith
  with fare show "getFare ?s =
     Some \<lparr>ratePerKm = Fin 15, total = Fin 107, isMinimumFare = False\<rparr>"
    by (simp add: scenario_rates_def)
  show "getFare (filledState\<lparr>booking := filledBooking\<lparr>carType := ''6-seater'',
            tripType := ''airport''\<rparr>, distance := Fin 3\<rparr>) =
     Some \<lparr>ratePerKm = Fin 22, total = Fin 100, isMinimumFare = True\<rparr>"
    using getFare_rate_table_and_total
      [of "filledState\<lparr>booking := filledBooking\<lparr>carType := ''6-seater'',
            tripType := ''airport''\<rparr>, distance := Fin 3\<rparr>" scenario_rates Airport SixSeater]
    by (simp add: filledState_def filledBooking_def scenario_rates_def fl_66)
qed

text \<open>
  C6. \<open>getFare\<close> returns \<open>null\<close> exactly when the distance is 0 or the local rates are
  not loaded, and a fare breakdown otherwise. The absent result is a value of the
  function: \<open>getFare\<close> has no branch that throws.
\<close>

theorem getFare_absent_iff:
  "(getFare s = None) = (distance s = Fin 0 \<or> mumbaiLocalRates s = None)"
  by (auto simp: getFare_def Let_def split: option.splits)

theorem getFare_absent_iff_witness:
  "getFare initialState = None \<and>
   getFare (initialState\<lparr>distance := Fin 40\<rparr>) = None \<and>
   getFare (filledState\<lparr>distance := Fin 0\<rparr>) = None \<and>
   getFare filledState \<noteq> None \<and>
   getFare (filledState\<lparr>distance := NaN\<rparr>) \<noteq> None"
  using getFare_absent_iff [of initialState]
    getFare_absent_iff [of "initialState\<lparr>distance := Fin 40\<rparr>"]
    getFare_absent_iff [of "filledState\<lparr>distance := Fin 0\<rparr>"]
    getFare_absent_iff [of filledState]
    getFare_absent_iff [of "filledState\<lparr>distance := NaN\<rparr>"]
  by (simp add: initialState_def filledState_def)

text \<open>
  C10. The rate selection is total over strings: with a distance above 0 and loaded
  rates, every pair of a trip type and a car type gives a fare breakdown; a car type
  other than \<open>4-seater\<close> selects the 6-seater rate and a trip type other than \<open>airport\<close>
  selects the normal rate.
\<close>

theorem getFare_total_over_strings:
  assumes "n_less (Fin 0) (distance s)" and "mumbaiLocalRates s = Some rates"
  shows "\<exists>f. getFare s = Some f \<and>
     (tripType (booking s) \<noteq> ''airport'' \<and> carType (booking s) \<noteq> ''4-seater'' \<longrightarrow>
        ratePerKm f = normal_6_seater_rate_per_km rates) \<and>
     (tripType (booking s) \<noteq> ''airport'' \<and> carType (booking s) = ''4-seater'' \<longrightarrow>
        ratePerKm f = normal_4_seater_rate_per_km rates) \<and>
     (tripType (booking s) = ''airport'' \<and> carType (booking s) \<noteq> ''4-seater'' \<longrightarrow>
        ratePerKm f = airport_6_seater_rate_per_km rates) \<and>
     (tripType (booking s) = ''airport'' \<and> carType (booking s) = ''4-seater'' \<longrightarrow>
        ratePerKm f = airport_4_seater_rate_per_km rates)"
  using getFare_Some [OF positive_not_zero [OF assms(1)] assms(2)] by (simp add: Let_def)

theorem getFare_total_over_strings_witness:
  "\<exists>f. getFare (filledState\<lparr>booking := filledBooking\<lparr>carType := ''minibus'',
                    tripType := ''outstation''\<rparr>\<rparr>) = Some f \<and> ratePerKm f = Fin 18"
  using getFare_total_over_strings
    [of "filledState\<lparr>booking := filledBooking\<lparr>carType := ''minibus'',
          tripType := ''outstation''\<rparr>\<rparr>" scenario_rates]
  by (simp add: filledState_def filledBooking_def scenario_rates_def)

section \<open>The pricing store\<close>

lemma addCity_Inl:
  "addCity p n (Inl e) =
     (p, [ConsoleError ''Error adding city:'',
          if err_code e = Some ''23505'' then ToastError ''City already exists''
          else ToastError ''Failed to add city''], False)"
  by (simp add: addCity_def)

lemma addCity_Inr:
  "addCity p n (Inr c) =
     (p\<lparr>cities := cities p @ [c]\<rparr>, [ToastSuccess ''City added successfully''], True)"
  by (simp add: addCity_def)

lemma addRoute_Inl:
  "addRoute p f t p4 p6 (Inl e) =
     (p, [ConsoleError ''Error adding route:'',
          if err_code e = Some ''23505'' then ToastError ''Route already exists''
          else ToastError ''Failed to add route''], False)"
  by (simp add: addRoute_def)

lemma addRoute_Inr:
  "addRoute p f t p4 p6 (Inr r) =
     (p\<lparr>routes := routes p @ [r]\<rparr>, [ToastSuccess ''Route added successfully''], True)"
  by (simp add: addRoute_def)

text \<open>
  C3. \<open>addCity\<close> and \<open>addRoute\<close>: when the insert fails with the unique-constraint code
  \<open>23505\<close> the call reports "already exists" and the number of cities (routes) in memory
  is unchanged; when the insert succeeds exactly one entry is appended; any other
  failure reports the generic failure. In each case the call returns a boolean: the
  function has no branch that throws.
\<close>

theorem add_outcomes:
  "(err_code e = Some ''23505'' \<longrightarrow>
      addCity p cityName (Inl e) =
        (p, [ConsoleError ''Error adding city:'', ToastError ''City already exists''], False) \<and>
      addRoute p fromCity toCity p4 p6 (Inl e) =
        (p, [ConsoleError ''Error adding route:'', ToastError ''Route already exists''], False)) \<and>
   (err_code e \<noteq> Some ''23505'' \<longrightarrow>
      addCity p cityName (Inl e) =
        (p, [ConsoleError ''Error adding city:'', ToastError ''Failed to add city''], False) \<and>
      addRoute p fromCity toCity p4 p6 (Inl e) =
        (p, [ConsoleError ''Error adding route:'', ToastError ''Failed to add route''], False)) \<and>
   length (cities (fst (addCity p cityName (Inl e)))) = length (cities p) \<and>
   length (routes (fst (addRoute p fromCity toCity p4 p6 (Inl e)))) = length (routes p) \<and>
   addCity p cityName (Inr c) =
     (p\<lparr>cities := cities p @ [c]\<rparr>, [ToastSuccess ''City added successfully''], True) \<and>
   addRoute p fromCity toCity p4 p6 (Inr r) =
     (p\<lparr>routes := routes p @ [r]\<rparr>, [ToastSuccess ''Route added successfully''], True) \<and>
   length (cities (fst (addCity p cityName (Inr c)))) = Suc (length (cities p)) \<and>
   length (routes (fst (addRoute p fromCity toCity p4 p6 (Inr r)))) = Suc (length (routes p))"
  by (simp add: addCity_Inl addCity_Inr addRoute_Inl addRoute_Inr)

theorem add_outcomes_witness:
  "addCity (defaultPricing\<lparr>cities := [pune]\<rparr>) ''Pune'' (Inl (DbError (Some ''23505''))) =
     (defaultPricing\<lparr>cities := [pune]\<rparr>,
      [ConsoleError ''Error adding city:'', ToastError ''City already exists''], False) \<and>
   addRoute defaultPricing ''Mumbai'' ''Pune'' (Fin 2500) (Fin 3500) (Inl (DbError None)) =
     (defaultPricing, [ConsoleError ''Error adding route:'', ToastError ''Failed to add route''],
      False) \<and>
   addRoute defaultPricing ''Mumbai'' ''Pune'' (Fin 2500) (Fin 3500) (Inr mumbai_pune) =
     (defaultPricing\<lparr>routes := [mumbai_pune]\<rparr>, [ToastSuccess ''Route added successfully''],
      True)"
  using add_outcomes [of "DbError (Some ''23505'')" "defaultPricing\<lparr>cities := [pune]\<rparr>" "''Pune''"]
    add_outcomes [of "DbError None" defaultPricing _ "''Mumbai''" "''Pune''" "Fin 2500" "Fin 3500" _ mumbai_pune]
  by (simp add: defaultPricing_def)

text \<open>
  C4. Each of \<open>addCity\<close>, \<open>removeCity\<close>, \<open>addRoute\<close>, \<open>updateRoute\<close> and \<open>deleteRoute\<close>
  leaves the pricing configuration in memory exactly as it was when the remote call
  reports an error: the configuration is written only on the branch of a successful
  response. \<open>updatePricing\<close> is the exception: it takes no response and stores the
  configuration it is given.
\<close>

theorem mutations_only_after_remote_success:
  "fst (addCity p cityName (Inl e)) = p \<and>
   fst (removeCity p cityId (Some e)) = p \<and>
   fst (addRoute p fromCity toCity p4 p6 (Inl e)) = p \<and>
   fst (updateRoute p routeId p4 p6 (Inl e)) = p \<and>
   fst (deleteRoute p routeId (Some e)) = p \<and>
   updatePricing p newPricing = (newPricing, [LocalStorageSetPricing newPricing])"
  by (simp add: addCity_def removeCity_def addRoute_def updateRoute_def deleteRoute_def
      updatePricing_def)

theorem mutations_only_after_remote_success_witness:
  "fst (removeCity (defaultPricing\<lparr>cities := [pune]\<rparr>) ''c1'' (Some (DbError None))) =
     defaultPricing\<lparr>cities := [pune]\<rparr> \<and>
   fst (deleteRoute (defaultPricing\<lparr>routes := [mumbai_pune]\<rparr>) ''r1'' (Some (DbError None))) =
     defaultPricing\<lparr>routes := [mumbai_pune]\<rparr> \<and>
   fst (updateRoute (defaultPricing\<lparr>routes := [mumbai_pune]\<rparr>) ''r1'' (Fin 2700) (Fin 3900)
          (Inl (DbError None))) =
     defaultPricing\<lparr>routes := [mumbai_pune]\<rparr>"
  using mutations_only_after_remote_success
    [of "defaultPricing\<lparr>cities := [pune]\<rparr>" _ "DbError None" "''c1''"]
    mutations_only_after_remote_success
    [of "defaultPricing\<lparr>routes := [mumbai_pune]\<rparr>" _ "DbError None" _ _ _ "Fin 2700" "Fin 3900" "''r1''"]
  by simp

subsection \<open>\<open>updateRoute\<close> against the table\<close>

lemma store_update_route_Inr:
  assumes "store_update_route tbl rid p4 p6 = (tbl', Inr row)"
  shows "\<exists>row0 \<in> set tbl. route_id row0 = rid \<and> row = update_payload p4 p6 row0"
proof -
  let ?upd = "\<lambda>r. if route_id r = rid then update_payload p4 p6 r else r"
  from assms have "filter (\<lambda>r. route_id r = rid) (map ?upd tbl) = [row]"
    by (auto simp: store_update_route_def Let_def split: list.splits)
  then have "row \<in> set (filter (\<lambda>r. route_id r = rid) (map ?upd tbl))" by simp
  then obtain row0 where "row0 \<in> set tbl" "row = ?upd row0" "route_id row = rid" by auto
  moreover have "route_id (?upd row0) = route_id row0" by (simp add: update_payload_def)
  ultimately show ?thesis by auto
qed

lemma payload_of_agreeing_row:
  fixes r row0 :: Route
  assumes "route_id row0 = route_id r" "from_city row0 = from_city r" "to_city row0 = to_city r"
  shows "update_payload p4 p6 row0 = r\<lparr>price_4_seater := p4, price_6_seater := p6\<rparr>"
  using assms by (cases r, cases row0) (simp add: update_payload_def)

text \<open>On success the cache holds its old routes with the entries of id \<open>rid\<close> replaced
  by the stored row with the two new prices.\<close>

lemma updateRoute_on_store_row:
  assumes ok: "updateRoute_on_store tbl prev rid p4 p6 = (tbl', p', es, True)"
  shows "\<exists>row \<in> set tbl. route_id row = rid \<and>
     p' = prev\<lparr>routes := map (\<lambda>r. if route_id r = rid
                 then row\<lparr>price_4_seater := p4, price_6_seater := p6\<rparr> else r) (routes prev)\<rparr>"
proof -
  obtain resp where st: "store_update_route tbl rid p4 p6 = (tbl', resp)"
    and up: "updateRoute prev rid p4 p6 resp = (p', es, True)"
    using ok by (auto simp: updateRoute_on_store_def split: prod.splits)
  from up obtain data where resp: "resp = Inr data"
    and p': "p' = prev\<lparr>routes := map (\<lambda>r. if route_id r = rid then data else r) (routes prev)\<rparr>"
    by (auto simp: updateRoute_def split: sum.splits)
  from store_update_route_Inr [OF st [unfolded resp]]
  obtain row where "row \<in> set tbl" "route_id row = rid" "data = update_payload p4 p6 row"
    by blast
  with p' show ?thesis by (auto simp: update_payload_def)
qed

text \<open>When the cache agrees with the table, that is the cached entry with its two prices
  replaced.\<close>

lemma updateRoute_on_store_success:
  assumes agr: "cache_agrees tbl prev"
    and ok: "updateRoute_on_store tbl prev rid p4 p6 = (tbl', p', es, True)"
  shows "p' = prev\<lparr>routes := map (\<lambda>r. if route_id r = rid
                 then r\<lparr>price_4_seater := p4, price_6_seater := p6\<rparr> else r) (routes prev)\<rparr>"
proof -
  from updateRoute_on_store_row [OF ok]
  obtain row where row: "row \<in> set tbl" "route_id row = rid"
    and p': "p' = prev\<lparr>routes := map (\<lambda>r. if route_id r = rid
                 then row\<lparr>price_4_seater := p4, price_6_seater := p6\<rparr> else r) (routes prev)\<rparr>"
    by blast
  have "(if route_id r = rid then row\<lparr>price_4_seater := p4, price_6_seater := p6\<rparr> else r) =
        (if route_id r = rid then r\<lparr>price_4_seater := p4, price_6_seater := p6\<rparr> else r)"
    if "r \<in> set (routes prev)" for r
  proof (cases "route_id r = rid")
    case True
    with agr that row have "from_city row = from_city r \<and> to_city row = to_city r"
      by (auto simp: cache_agrees_def list_all_iff)
    with True row payload_of_agreeing_row [of row r p4 p6] show ?thesis
      by (simp add: update_payload_def)
  next
    case False
    then show ?thesis by simp
  qed
  then have "map (\<lambda>r. if route_id r = rid
                 then row\<lparr>price_4_seater := p4, price_6_seater := p6\<rparr> else r) (routes prev) =
     map (\<lambda>r. if route_id r = rid then r\<lparr>price_4_seater := p4, price_6_seater := p6\<rparr> else r)
       (routes prev)"
    by (intro map_cong) auto
  with p' show ?thesis by simp
qed

text \<open>A cache loaded from the table agrees with it when the ids of the table are
  distinct (\<open>id\<close> is its key), and the update keeps the agreement, whatever its outcome.\<close>

lemma fetch_establishes_agreement:
  assumes "distinct (map route_id tbl)"
  shows "cache_agrees tbl (fst (fetchCitiesAndRoutes prev (Inr cs) (Inr (Some tbl))))"
proof -
  have "row = r" if "r \<in> set tbl" "row \<in> set tbl" "route_id row = route_id r" for r row
    using assms that by (meson distinct_map inj_onD)
  then show ?thesis
    by (auto simp: cache_agrees_def list_all_iff fetchCitiesAndRoutes_def or_empty_def)
qed


lemma updateRoute_on_store_keeps_agreement:
  assumes agr: "cache_agrees tbl prev"
    and run: "updateRoute_on_store tbl prev rid p4 p6 = (tbl', p', es, ok)"
  shows "cache_agrees tbl' p'"
proof -
  let ?upd = "\<lambda>r. if route_id r = rid then update_payload p4 p6 r else r"
  obtain resp where st: "store_update_route tbl rid p4 p6 = (tbl', resp)"
    and up: "updateRoute prev rid p4 p6 resp = (p', es, ok)"
    using run by (auto simp: updateRoute_on_store_def split: prod.splits)
  from st have tbl': "tbl' = map ?upd tbl"
    by (auto simp: store_update_route_def Let_def split: list.splits)
  have same: "route_id (?upd x) = route_id x \<and> from_city (?upd x) = from_city x \<and>
      to_city (?upd x) = to_city x" for x
    by (simp add: update_payload_def)
  have old: "from_city x = from_city r \<and> to_city x = to_city r"
    if "r \<in> set (routes prev)" "x \<in> set tbl" "route_id x = route_id r" for r x
    using agr that by (auto simp: cache_agrees_def list_all_iff)
  have "from_city (?upd x) = from_city r' \<and> to_city (?upd x) = to_city r'"
    if r': "r' \<in> set (routes p')" and x: "x \<in> set tbl" and eq: "route_id (?upd x) = route_id r'"
    for r' x
  proof (cases resp)
    case (Inl e)
    with up have "p' = prev" by (simp add: updateRoute_def)
    with r' x eq old [of r' x] same [of x] show ?thesis by simp
  next
    case (Inr row)
    from store_update_route_Inr [OF st [unfolded Inr]]
    obtain row0 where row0: "row0 \<in> set tbl" "route_id row0 = rid"
      "row = update_payload p4 p6 row0" by blast
    from up Inr have "routes p' = map (\<lambda>r. if route_id r = rid then row else r) (routes prev)"
      by (auto simp: updateRoute_def)
    with r' obtain r where r: "r \<in> set (routes prev)"
      "r' = (if route_id r = rid then row else r)" by auto
    show ?thesis
    proof (cases "route_id r = rid")
      case True
      with r row0 have r'row: "r' = ?upd row0" by simp
      with eq same [of x] same [of row0] True have "route_id x = route_id r" "route_id row0 = route_id r"
        using row0 by auto
      with old [OF r(1) x] old [OF r(1) row0(1)] r'row same [of x] same [of row0]
      show ?thesis by simp
    next
      case False
      with r have "r' = r" by simp
      with r x eq old [of r x] same [of x] show ?thesis by simp
    qed
  qed
  note key = this
  show ?thesis
    unfolding cache_agrees_def list_all_iff tbl'
  proof (intro ballI impI)
    fix r' row
    assume r': "r' \<in> set (routes p')" and "row \<in> set (map ?upd tbl)"
      and eq: "route_id row = route_id r'"
    then obtain x where "x \<in> set tbl" "row = ?upd x" by auto
    with key [of r' x] r' eq show "from_city row = from_city r' \<and> to_city row = to_city r'"
      by simp
  qed
qed

text \<open>
  C5, as the code has it. After a successful \<open>updateRoute(id, price4, price6)\<close> the
  entry of the in-memory list with that id is replaced by the row the store returns,
  which is the stored row with only its two price fields changed. Every other route of
  the list is the same, and the cities and the local rates of the configuration are the
  same. The replaced entry has the \<open>from_city\<close> and \<open>to_city\<close> of the stored row; they
  are the ones it had before the update when the cache agreed with the table.
\<close>

theorem updateRoute_replaces_entry_by_stored_row:
  "updateRoute prev rid p4 p6 (Inr data) =
     (prev\<lparr>routes := map (\<lambda>r. if route_id r = rid then data else r) (routes prev)\<rparr>,
      [ToastSuccess ''Route updated successfully''], True) \<and>
   (updateRoute_on_store tbl prev rid p4 p6 = (tbl', p', es, True) \<longrightarrow>
      cities p' = cities prev \<and> mumbaiLocal p' = mumbaiLocal prev \<and>
      length (routes p') = length (routes prev) \<and>
      (\<exists>row \<in> set tbl. route_id row = rid \<and>
         (\<forall>i < length (routes prev).
            (route_id (routes prev ! i) = rid \<longrightarrow>
               routes p' ! i = row\<lparr>price_4_seater := p4, price_6_seater := p6\<rparr>) \<and>
            (route_id (routes prev ! i) \<noteq> rid \<longrightarrow> routes p' ! i = routes prev ! i))) \<and>
      (cache_agrees tbl prev \<longrightarrow>
         (\<forall>i < length (routes prev).
            route_id (routes p' ! i) = route_id (routes prev ! i) \<and>
            from_city (routes p' ! i) = from_city (routes prev ! i) \<and>
            to_city (routes p' ! i) = to_city (routes prev ! i) \<and>
            (route_id (routes prev ! i) = rid \<longrightarrow>
               price_4_seater (routes p' ! i) = p4 \<and> price_6_seater (routes p' ! i) = p6))))"
proof (intro conjI impI)
  show "updateRoute prev rid p4 p6 (Inr data) =
     (prev\<lparr>routes := map (\<lambda>r. if route_id r = rid then data else r) (routes prev)\<rparr>,
      [ToastSuccess ''Route updated successfully''], True)"
    by (simp add: updateRoute_def)
next
  assume ok: "updateRoute_on_store tbl prev rid p4 p6 = (tbl', p', es, True)"
  from updateRoute_on_store_row [OF ok]
  obtain row where row: "row \<in> set tbl" "route_id row = rid"
    and p': "p' = prev\<lparr>routes := map (\<lambda>r. if route_id r = rid
                 then row\<lparr>price_4_seater := p4, price_6_seater := p6\<rparr> else r) (routes prev)\<rparr>"
    by blast
  from p' show "cities p' = cities prev" "mumbaiLocal p' = mumbaiLocal prev"
    "length (routes p') = length (routes prev)"
    by simp_all
  from row p' show "\<exists>row \<in> set tbl. route_id row = rid \<and>
         (\<forall>i < length (routes prev).
            (route_id (routes prev ! i) = rid \<longrightarrow>
               routes p' ! i = row\<lparr>price_4_seater := p4, price_6_seater := p6\<rparr>) \<and>
            (route_id (routes prev ! i) \<noteq> rid \<longrightarrow> routes p' ! i = routes prev ! i))"
    by (intro bexI [of _ row]) simp_all
  assume agr: "cache_agrees tbl prev"
  from updateRoute_on_store_success [OF agr ok]
  show "\<forall>i < length (routes prev).
            route_id (routes p' ! i) = route_id (routes prev ! i) \<and>
            from_city (routes p' ! i) = from_city (routes prev ! i) \<and>
            to_city (routes p' ! i) = to_city (routes prev ! i) \<and>
            (route_id (routes prev ! i) = rid \<longrightarrow>
               price_4_seater (routes p' ! i) = p4 \<and> price_6_seater (routes p' ! i) = p6)"
    by simp
qed

theorem updateRoute_replaces_entry_by_stored_row_witness:
  "updateRoute_on_store [mumbai_pune, mumbai_nashik]
     \<lparr>mumbaiLocal = Some scenario_rates, cities = [pune], routes = [mumbai_pune, mumbai_nashik]\<rparr>
     ''r1'' (Fin 2700) (Fin 3900) =
     ([mumbai_pune\<lparr>price_4_seater := Fin 2700, price_6_seater := Fin 3900\<rparr>, mumbai_nashik],
      \<lparr>mumbaiLocal = Some scenario_rates, cities = [pune],
       routes = [mumbai_pune\<lparr>price_4_seater := Fin 2700, price_6_seater := Fin 3900\<rparr>,
                 mumbai_nashik]\<rparr>,
      [ToastSuccess ''Route updated successfully''], True) \<and>
   from_city (mumbai_pune\<lparr>price_4_seater := Fin 2700, price_6_seater := Fin 3900\<rparr>) =
     from_city mumbai_pune \<and>
   to_city (mumbai_pune\<lparr>price_4_seater := Fin 2700, price_6_seater := Fin 3900\<rparr>) =
     to_city mumbai_pune"
proof -
  let ?prev = "\<lparr>mumbaiLocal = Some scenario_rates, cities = [pune],
                 routes = [mumbai_pune, mumbai_nashik]\<rparr>"
  let ?p' = "\<lparr>mumbaiLocal = Some scenario_rates, cities = [pune],
       routes = [mumbai_pune\<lparr>price_4_seater := Fin 2700, price_6_seater := Fin 3900\<rparr>,
                 mumbai_nashik]\<rparr>"
  have agr: "cache_agrees [mumbai_pune, mumbai_nashik] ?prev"
    by (simp add: cache_agrees_def mumbai_pune_def mumbai_nashik_def)
  have run: "updateRoute_on_store [mumbai_pune, mumbai_nashik] ?prev ''r1'' (Fin 2700) (Fin 3900) =
     ([mumbai_pune\<lparr>price_4_seater := Fin 2700, price_6_seater := Fin 3900\<rparr>, mumbai_nashik], ?p',
      [ToastSuccess ''Route updated successfully''], True)"
    by (simp add: updateRoute_on_store_def store_update_route_def updateRoute_def
        update_payload_def mumbai_pune_def mumbai_nashik_def)
  from updateRoute_replaces_entry_by_stored_row
    [of ?prev "''r1''" "Fin 2700" "Fin 3900" _ "[mumbai_pune, mumbai_nashik]" _ ?p'] agr run
  have "from_city (routes ?p' ! 0) = from_city (routes ?prev ! 0) \<and>
        to_city (routes ?p' ! 0) = to_city (routes ?prev ! 0)"
    by simp
  with run show ?thesis by simp
qed

text \<open>
  C5, as stated, fails: a configuration stored by \<open>updatePricing\<close> holds the route \<open>r1\<close>
  from Thane, the table holds it from Mumbai; the update of its prices succeeds and the
  entry in memory is then from Mumbai.
\<close>

theorem stale_entry_takes_stored_cities:
  "from_city (routes (fst (updatePricing defaultPricing
      \<lparr>mumbaiLocal = None, cities = [], routes = [mumbai_pune\<lparr>from_city := ''Thane''\<rparr>]\<rparr>)) ! 0) =
     ''Thane'' \<and>
   updateRoute_on_store [mumbai_pune]
     (fst (updatePricing defaultPricing
        \<lparr>mumbaiLocal = None, cities = [], routes = [mumbai_pune\<lparr>from_city := ''Thane''\<rparr>]\<rparr>))
     ''r1'' (Fin 2700) (Fin 3900) =
     ([mumbai_pune\<lparr>price_4_seater := Fin 2700, price_6_seater := Fin 3900\<rparr>],
      \<lparr>mumbaiLocal = None, cities = [],
       routes = [mumbai_pune\<lparr>price_4_seater := Fin 2700, price_6_seater := Fin 3900\<rparr>]\<rparr>,
      [ToastSuccess ''Route updated successfully''], True) \<and>
   from_city (mumbai_pune\<lparr>price_4_seater := Fin 2700, price_6_seater := Fin 3900\<rparr>) = ''Mumbai''"
  by (simp add: updatePricing_def updateRoute_on_store_def store_update_route_def updateRoute_def
      update_payload_def mumbai_pune_def)

subsection \<open>Loading\<close>

text \<open>
  C7, as the code has it. The fetch of the local fares is independent of the fetch of
  the cities and routes: a failure of either reports an error and leaves the other's
  slices to be updated. The cities and the routes are fetched by one function in one
  \<open>try\<close> block and are stored together: a failure of the cities select or of the routes
  select leaves both lists at their previous values.
\<close>

theorem load_slices:
  "fetchLocalFares p (Inl e) =
     (p, [ConsoleError ''Error fetching local fares:'',
          ToastError ''Failed to load local fares'']) \<and>
   fetchLocalFares p (Inr lf) = (p\<lparr>mumbaiLocal := lf\<rparr>, []) \<and>
   fetchCitiesAndRoutes p (Inl e) routesResp =
     (p, [ConsoleError ''Error fetching cities and routes:'',
          ToastError ''Failed to load cities and routes'']) \<and>
   fetchCitiesAndRoutes p (Inr cs) (Inl e) =
     (p, [ConsoleError ''Error fetching cities and routes:'',
          ToastError ''Failed to load cities and routes'']) \<and>
   fetchCitiesAndRoutes p (Inr cs) (Inr rs) =
     (p\<lparr>cities := or_empty cs, routes := or_empty rs\<rparr>, []) \<and>
   mumbaiLocal (fst (fetchCitiesAndRoutes p citiesResp routesResp)) = mumbaiLocal p \<and>
   fst (loadOnMount p (Inl e) routesResp (Inr lf)) = p\<lparr>mumbaiLocal := lf\<rparr> \<and>
   fst (loadOnMount p (Inr cs) (Inl e) (Inr lf)) = p\<lparr>mumbaiLocal := lf\<rparr> \<and>
   fst (loadOnMount p (Inr cs) (Inr rs) (Inl e)) =
     p\<lparr>cities := or_empty cs, routes := or_empty rs\<rparr>"
  by (simp add: fetchLocalFares_def fetchCitiesAndRoutes_def loadOnMount_def split: sum.splits)

theorem load_slices_witness:
  "fst (loadOnMount defaultPricing (Inr (Some [pune])) (Inr (Some [mumbai_pune]))
          (Inl (DbError None))) =
     \<lparr>mumbaiLocal = None, cities = [pune], routes = [mumbai_pune]\<rparr> \<and>
   fst (loadOnMount defaultPricing (Inr (Some [pune])) (Inl (DbError None))
          (Inr (Some scenario_rates))) =
     \<lparr>mumbaiLocal = Some scenario_rates, cities = [], routes = []\<rparr>"
  using load_slices [of defaultPricing "DbError None" _ _ "Some [pune]" "Some [mumbai_pune]"]
    load_slices [of defaultPricing "DbError None" "Some scenario_rates" _ "Some [pune]"]
  by (simp add: defaultPricing_def or_empty_def)

text \<open>The two fetches of the mount effect write different slices, so the order in which
  their responses arrive does not matter.\<close>

lemma load_order_irrelevant:
  "fst (loadOnMount p citiesResp routesResp faresResp) =
   fst (fetchCitiesAndRoutes (fst (fetchLocalFares p faresResp)) citiesResp routesResp)"
  by (simp add: fetchLocalFares_def fetchCitiesAndRoutes_def loadOnMount_def
      split: sum.splits)

text \<open>
  C7, as stated, fails: when the cities select fails, the routes the store would have
  answered with are not stored.
\<close>

theorem cities_failure_blocks_routes:
  "routes (fst (loadOnMount defaultPricing (Inl (DbError None)) (Inr (Some [mumbai_pune]))
                  (Inr (Some scenario_rates)))) = [] \<and>
   [] \<noteq> [mumbai_pune]"
  by (simp add: fetchLocalFares_def fetchCitiesAndRoutes_def loadOnMount_def defaultPricing_def)

section \<open>Submission\<close>

lemma handleSubmit_missing:
  "missing_required_field_spec (booking s) \<Longrightarrow>
     handleSubmit s r = [ToastError ''Please fill all required fields'']"
  by (auto simp: handleSubmit_def missing_required_field_spec_def)

lemma handleSubmit_phone:
  "\<not> missing_required_field_spec (booking s) \<Longrightarrow>
   \<not> ten_digits_spec (customerPhone (booking s)) \<Longrightarrow>
     handleSubmit s r = [ToastError ''Please enter a valid 10-digit phone number.'']"
  by (auto simp: handleSubmit_def missing_required_field_spec_def isValidPhoneNumber_iff)

lemma handleSubmit_email:
  "\<not> missing_required_field_spec (booking s) \<Longrightarrow>
   ten_digits_spec (customerPhone (booking s)) \<Longrightarrow>
   customerEmail (booking s) \<noteq> [] \<Longrightarrow> \<not> isValidEmail (customerEmail (booking s)) \<Longrightarrow>
     handleSubmit s r = [ToastError ''Please enter a valid email address.'']"
  by (auto simp: handleSubmit_def missing_required_field_spec_def isValidPhoneNumber_iff)

lemma handleSubmit_distance:
  "\<not> missing_required_field_spec (booking s) \<Longrightarrow>
   ten_digits_spec (customerPhone (booking s)) \<Longrightarrow>
   \<not> (customerEmail (booking s) \<noteq> [] \<and> \<not> isValidEmail (customerEmail (booking s))) \<Longrightarrow>
   distance s = Fin 0 \<Longrightarrow>
     handleSubmit s r =
       [ToastError ''Unable to calculate distance. Please check your locations.'']"
  by (auto simp: handleSubmit_def missing_required_field_spec_def isValidPhoneNumber_iff)

lemma handleSubmit_valid:
  "\<not> validation_failure_spec s \<Longrightarrow>
     handleSubmit s r =
       [InsertBooking (booking_row s), WindowOpen (whatsapp_message s),
        ToastSuccess ''Redirecting to WhatsApp for booking confirmation''] @
       (case r of None \<Rightarrow> []
        | Some e \<Rightarrow> [ConsoleError ''Error saving booking:'',
                     ToastError ''Failed to save booking. Please try again.''])"
  by (auto simp: handleSubmit_def validation_failure_spec_def missing_required_field_spec_def
      isValidPhoneNumber_iff saveBookingToDatabase_def split: option.splits)

lemma handleSubmit_blocked:
  assumes "validation_failure_spec s"
  shows "handleSubmit s r \<in>
      {[ToastError ''Please fill all required fields''],
       [ToastError ''Please enter a valid 10-digit phone number.''],
       [ToastError ''Please enter a valid email address.''],
       [ToastError ''Unable to calculate distance. Please check your locations.'']}"
proof -
  consider (m) "missing_required_field_spec (booking s)"
    | (p) "\<not> missing_required_field_spec (booking s)"
          "\<not> ten_digits_spec (customerPhone (booking s))"
    | (e) "\<not> missing_required_field_spec (booking s)"
          "ten_digits_spec (customerPhone (booking s))"
          "customerEmail (booking s) \<noteq> []" "\<not> isValidEmail (customerEmail (booking s))"
    | (d) "\<not> missing_required_field_spec (booking s)"
          "ten_digits_spec (customerPhone (booking s))"
          "\<not> (customerEmail (booking s) \<noteq> [] \<and> \<not> isValidEmail (customerEmail (booking s)))"
          "distance s = Fin 0"
    using assms unfolding validation_failure_spec_def by blast
  then show ?thesis
  proof cases
    case m then show ?thesis by (simp add: handleSubmit_missing)
  next
    case p then show ?thesis by (simp add: handleSubmit_phone)
  next
    case e then show ?thesis by (simp add: handleSubmit_email)
  next
    case d then show ?thesis by (simp add: handleSubmit_distance)
  qed
qed

lemma handleSubmit_blocked_no_handoff:
  assumes "validation_failure_spec s"
  shows "\<not> list_ex is_handoff (handleSubmit s r)"
  using handleSubmit_blocked [OF assms, of r] by auto

lemma phone_examples:
  "ten_digits_spec ''1234567890''" "\<not> ten_digits_spec ''12345''"
  "\<not> ten_digits_spec ''12345abcde''"
  by (simp_all add: ten_digits_spec_def rx_digit_def)

text \<open>
  C8. On submission every validation failure (a required field among name, phone,
  pickup, drop, date and time is empty; the phone is not exactly ten digits; the email
  is not empty and does not match; the distance is 0) ends the handler with one error
  toast, the one of the first check that fails, and neither the insert of the booking
  nor the messaging link is reached. The phone test \<open>/^\d{10}$/\<close> holds exactly of the
  strings of ten digits: of \<open>1234567890\<close>, not of \<open>12345\<close>, not of \<open>12345abcde\<close>.
\<close>

theorem handleSubmit_validation_blocks:
  "(validation_failure_spec s \<longrightarrow>
      handleSubmit s saveResp \<in>
        {[ToastError ''Please fill all required fields''],
         [ToastError ''Please enter a valid 10-digit phone number.''],
         [ToastError ''Please enter a valid email address.''],
         [ToastError ''Unable to calculate distance. Please check your locations.'']} \<and>
      \<not> list_ex is_handoff (handleSubmit s saveResp)) \<and>
   (missing_required_field_spec (booking s) \<longrightarrow>
      handleSubmit s saveResp = [ToastError ''Please fill all required fields'']) \<and>
   (\<not> missing_required_field_spec (booking s) \<and>
    \<not> ten_digits_spec (customerPhone (booking s)) \<longrightarrow>
      handleSubmit s saveResp = [ToastError ''Please enter a valid 10-digit phone number.'']) \<and>
   (\<not> missing_required_field_spec (booking s) \<and> ten_digits_spec (customerPhone (booking s)) \<and>
    customerEmail (booking s) \<noteq> [] \<and> \<not> isValidEmail (customerEmail (booking s)) \<longrightarrow>
      handleSubmit s saveResp = [ToastError ''Please enter a valid email address.'']) \<and>
   (\<not> missing_required_field_spec (booking s) \<and> ten_digits_spec (customerPhone (booking s)) \<and>
    \<not> (customerEmail (booking s) \<noteq> [] \<and> \<not> isValidEmail (customerEmail (booking s))) \<and>
    distance s = Fin 0 \<longrightarrow>
      handleSubmit s saveResp =
        [ToastError ''Unable to calculate distance. Please check your locations.'']) \<and>
   isValidPhoneNumber phone = (length phone = 10 \<and> list_all rx_digit phone) \<and>
   isValidPhoneNumber ''1234567890'' \<and>
   \<not> isValidPhoneNumber ''12345'' \<and>
   \<not> isValidPhoneNumber ''12345abcde''"
proof (intro conjI impI)
  show "isValidPhoneNumber phone = (length phone = 10 \<and> list_all rx_digit phone)"
    by (simp add: isValidPhoneNumber_iff ten_digits_spec_def)
next
  assume "validation_failure_spec s"
  then show "handleSubmit s saveResp \<in>
        {[ToastError ''Please fill all required fields''],
         [ToastError ''Please enter a valid 10-digit phone number.''],
         [ToastError ''Please enter a valid email address.''],
         [ToastError ''Unable to calculate distance. Please check your locations.'']}"
    by (rule handleSubmit_blocked)
qed (simp_all add: handleSubmit_blocked_no_handoff handleSubmit_missing
    handleSubmit_phone handleSubmit_email handleSubmit_distance isValidPhoneNumber_iff
    phone_examples)

theorem handleSubmit_validation_blocks_witness:
  "handleSubmit (filledState\<lparr>booking := filledBooking\<lparr>date := []\<rparr>\<rparr>) None =
     [ToastError ''Please fill all required fields''] \<and>
   handleSubmit (filledState\<lparr>booking := filledBooking\<lparr>customerPhone := ''12345abcde''\<rparr>\<rparr>) None =
     [ToastError ''Please enter a valid 10-digit phone number.''] \<and>
   handleSubmit (filledState\<lparr>booking := filledBooking\<lparr>customerEmail := ''asha@example''\<rparr>\<rparr>) None =
     [ToastError ''Please enter a valid email address.''] \<and>
   handleSubmit (filledState\<lparr>distance := Fin 0\<rparr>) None =
     [ToastError ''Unable to calculate distance. Please check your locations.'']"
proof (intro conjI)
  show "handleSubmit (filledState\<lparr>booking := filledBooking\<lparr>date := []\<rparr>\<rparr>) None =
     [ToastError ''Please fill all required fields'']"
    using handleSubmit_validation_blocks
      [of "filledState\<lparr>booking := filledBooking\<lparr>date := []\<rparr>\<rparr>" None]
    by (simp add: missing_required_field_spec_def filledState_def filledBooking_def)
  show "handleSubmit (filledState\<lparr>booking := filledBooking\<lparr>customerPhone := ''12345abcde''\<rparr>\<rparr>)
      None = [ToastError ''Please enter a valid 10-digit phone number.'']"
    using handleSubmit_validation_blocks
      [of "filledState\<lparr>booking := filledBooking\<lparr>customerPhone := ''12345abcde''\<rparr>\<rparr>" None]
    by (simp add: missing_required_field_spec_def ten_digits_spec_def rx_digit_def
        filledState_def filledBooking_def)
  have bad: "\<not> isValidEmail ''asha@example''"
    by (simp add: isValidEmail_def emailRegex_def rx_plus_def rx_not_space_at_def rx_space_def
        rx_char_def)
  show "handleSubmit (filledState\<lparr>booking := filledBooking\<lparr>customerEmail := ''asha@example''\<rparr>\<rparr>)
      None = [ToastError ''Please enter a valid email address.'']"
    using handleSubmit_validation_blocks
      [of "filledState\<lparr>booking := filledBooking\<lparr>customerEmail := ''asha@example''\<rparr>\<rparr>" None]
      bad
    by (simp add: missing_required_field_spec_def ten_digits_spec_def rx_digit_def
        filledState_def filledBooking_def)
  show "handleSubmit (filledState\<lparr>distance := Fin 0\<rparr>) None =
     [ToastError ''Unable to calculate distance. Please check your locations.'']"
    using handleSubmit_validation_blocks [of "filledState\<lparr>distance := Fin 0\<rparr>" None]
    by (simp add: missing_required_field_spec_def ten_digits_spec_def rx_digit_def
        filledState_def filledBooking_def)
qed

text \<open>
  C9. For a booking that passes every validation the handler starts the save, builds
  the message and opens the messaging link whatever the save settles to. When the save
  fails, the failure is logged and reported by a toast after the hand-off: the effects
  of the run are those of the run with a successful save, followed by the log and the
  toast.
\<close>

theorem handleSubmit_handoff_despite_save_failure:
  assumes "\<not> validation_failure_spec s"
  shows "WindowOpen (whatsapp_message s) \<in> set (handleSubmit s saveResp) \<and>
     handleSubmit s None =
       [InsertBooking (booking_row s), WindowOpen (whatsapp_message s),
        ToastSuccess ''Redirecting to WhatsApp for booking confirmation''] \<and>
     handleSubmit s (Some e) =
       handleSubmit s None @
       [ConsoleError ''Error saving booking:'',
        ToastError ''Failed to save booking. Please try again.'']"
  using handleSubmit_valid [OF assms, of saveResp] handleSubmit_valid [OF assms, of None]
    handleSubmit_valid [OF assms, of "Some e"]
  by simp

theorem handleSubmit_handoff_despite_save_failure_witness:
  "\<not> validation_failure_spec filledState \<and>
   handleSubmit filledState (Some (DbError None)) =
     [InsertBooking (booking_row filledState), WindowOpen (whatsapp_message filledState),
      ToastSuccess ''Redirecting to WhatsApp for booking confirmation'',
      ConsoleError ''Error saving booking:'',
      ToastError ''Failed to save booking. Please try again.''] \<and>
   msg_estimated_price (whatsapp_message filledState) = Fin 600"
proof -
  have ok: "\<not> validation_failure_spec filledState"
    by (simp add: validation_failure_spec_def missing_required_field_spec_def
        ten_digits_spec_def rx_digit_def filledState_def filledBooking_def)
  have "getFare filledState =
      Some \<lparr>ratePerKm = Fin 15, total = Fin 600, isMinimumFare = False\<rparr>"
    using getFare_Some [of filledState scenario_rates]
    by (simp add: filledState_def filledBooking_def scenario_rates_def fl_600)
  then have price: "msg_estimated_price (whatsapp_message filledState) = Fin 600"
    by (simp add: whatsapp_message_def fare_total_or_0_def)
  from handleSubmit_handoff_despite_save_failure [OF ok, of None "DbError None"] ok price
  show ?thesis by simp
qed

section \<open>The straight-line distance\<close>

subsection \<open>The formula over exact arithmetic\<close>

lemma haversine_cos: "haversine x = (1 - cos x) / 2"
  using cos_double_sin [of "x / 2"] by (simp add: haversine_def)

lemma abs_mult_le_half_squares: "\<bar>x * y\<bar> \<le> (x\<^sup>2 + y\<^sup>2) / (2::real)"
  using sum_squares_bound [of x y] sum_squares_bound [of x "- y"]
  by (simp add: abs_le_iff)

lemma half_sums_bound:
  fixes A B C P Q R S :: real
  assumes "B \<le> (R + S) / 2" "A \<le> (P + Q) / 2" "C \<le> A + B" "P + R = 1" "Q + S = 1"
  shows "C \<le> 1"
  using assms by argo

text \<open>The dot product of two unit vectors, written in their spherical coordinates, lies
  between -1 and 1; so the haversine of the central angle lies between 0 and 1.\<close>

lemma dot_product_bound:
  fixes s1 c1 s2 c2 k :: real
  assumes "s1\<^sup>2 + c1\<^sup>2 = 1" "s2\<^sup>2 + c2\<^sup>2 = 1" "\<bar>k\<bar> \<le> 1"
  shows "\<bar>s1 * s2 + c1 * c2 * k\<bar> \<le> 1"
proof -
  have "\<bar>c1 * c2 * k\<bar> = \<bar>c1 * c2\<bar> * \<bar>k\<bar>" by (simp add: abs_mult)
  also have "\<dots> \<le> \<bar>c1 * c2\<bar> * 1" using assms(3) by (intro mult_left_mono) auto
  finally have "\<bar>c1 * c2 * k\<bar> \<le> (c1\<^sup>2 + c2\<^sup>2) / 2"
    using abs_mult_le_half_squares [of c1 c2] by simp
  moreover have "\<bar>s1 * s2\<bar> \<le> (s1\<^sup>2 + s2\<^sup>2) / 2" by (rule abs_mult_le_half_squares)
  moreover have "\<bar>s1 * s2 + c1 * c2 * k\<bar> \<le> \<bar>s1 * s2\<bar> + \<bar>c1 * c2 * k\<bar>" by (rule abs_triangle_ineq)
  ultimately show ?thesis using assms(1,2) by (rule half_sums_bound)
qed

lemma hav_arg_dot:
  "hav_arg phi1 phi2 dlam = (1 - (sin phi1 * sin phi2 + cos phi1 * cos phi2 * cos dlam)) / 2"
proof -
  have "hav_arg phi1 phi2 dlam =
      (1 - (cos phi2 * cos phi1 + sin phi2 * sin phi1)) / 2 +
      cos phi1 * cos phi2 * ((1 - cos dlam) / 2)"
    by (simp add: hav_arg_def haversine_cos cos_diff)
  also have "\<dots> = (1 - (sin phi1 * sin phi2 + cos phi1 * cos phi2 * cos dlam)) / 2"
    by (simp add: field_simps)
  finally show ?thesis .
qed

lemma hav_arg_bounds: "0 \<le> hav_arg phi1 phi2 dlam \<and> hav_arg phi1 phi2 dlam \<le> 1"
proof -
  have "\<bar>sin phi1 * sin phi2 + cos phi1 * cos phi2 * cos dlam\<bar> \<le> 1"
    by (rule dot_product_bound) (simp_all add: abs_cos_le_one)
  then show ?thesis unfolding hav_arg_dot by (simp add: abs_le_iff)
qed

text \<open>On that range \<open>atan2(sqrt a, sqrt (1 - a))\<close> is \<open>arcsin (sqrt a)\<close>.\<close>

lemma atan2_real_arcsin:
  assumes "0 \<le> a" "a \<le> 1"
  shows "atan2_real (sqrt a) (sqrt (1 - a)) = arcsin (sqrt a)"
proof (cases "a = 1")
  case True
  then show ?thesis by (simp add: atan2_real_def)
next
  case False
  with assms have lt: "a < 1" by simp
  then have pos: "0 < sqrt (1 - a)" by simp
  from assms lt have "- 1 < sqrt a" "sqrt a < 1"
    by (auto intro: less_le_trans [of _ 0] simp: real_sqrt_lt_1_iff)
  from arcsin_arctan [OF this] assms(1)
  have "arcsin (sqrt a) = arctan (sqrt a / sqrt (1 - a))" by simp
  with pos show ?thesis by (simp add: atan2_real_def)
qed

text \<open>Read over exact arithmetic, the code computes the great-circle distance of the
  haversine formula with the radius 6371 km, rounded to two decimals.\<close>

lemma calculateStraightLineDistance_exact:
  "calculateStraightLineDistance exact_arithmetic
     \<lparr>lat = Fin lat1, lng = Fin lng1\<rparr> \<lparr>lat = Fin lat2, lng = Fin lng2\<rparr> =
   Fin (round_2_decimals_spec (great_circle_km_spec lat1 lng1 lat2 lng2))"
proof -
  let ?a = "hav_arg (radians lat1) (radians lat2) (radians lng2 - radians lng1)"
  have r: "(lat2 - lat1) * pi / 180 / 2 = (radians lat2 - radians lat1) / 2"
    "(lng2 - lng1) * pi / 180 / 2 = (radians lng2 - radians lng1) / 2"
    "lat1 * pi / 180 = radians lat1" "lat2 * pi / 180 = radians lat2"
    by (simp_all add: radians_def algebra_simps diff_divide_distrib)
  have a: "sin ((lat2 - lat1) * pi / 180 / 2) * sin ((lat2 - lat1) * pi / 180 / 2) +
      cos (lat1 * pi / 180) * cos (lat2 * pi / 180) * sin ((lng2 - lng1) * pi / 180 / 2) *
      sin ((lng2 - lng1) * pi / 180 / 2) = ?a"
    unfolding r by (simp add: hav_arg_def haversine_def power2_eq_square)
  have b: "\<not> ?a < 0" "\<not> 1 - ?a < 0"
    using hav_arg_bounds [of "radians lat1" "radians lat2" "radians lng2 - radians lng1"]
    by simp_all
  have c: "atan2_real (sqrt ?a) (sqrt (1 - ?a)) = arcsin (sqrt ?a)"
    using hav_arg_bounds [of "radians lat1" "radians lat2" "radians lng2 - radians lng1"]
    by (intro atan2_real_arcsin) simp_all
  have ops: "\<And>x y. n_sub Fin (Fin x) (Fin y) = Fin (x - y)"
    "\<And>x y. n_mul Fin (Fin x) (Fin y) = Fin (x * y)"
    "\<And>x y. n_add Fin (Fin x) (Fin y) = Fin (x + y)"
    "\<And>x. n_div Fin (Fin x) (Fin 180) = Fin (x / 180)"
    "\<And>x. n_div Fin (Fin x) (Fin 2) = Fin (x / 2)"
    by (simp_all add: n_sub_def)
  have "calculateStraightLineDistance exact_arithmetic
      \<lparr>lat = Fin lat1, lng = Fin lng1\<rparr> \<lparr>lat = Fin lat2, lng = Fin lng2\<rparr> =
    n_div Fin (Math_round (n_mul Fin (n_mul Fin (Fin 6371)
      (n_mul Fin (Fin 2)
         (exact_atan2 (exact_sqrt (Fin ?a)) (exact_sqrt (n_sub Fin (Fin 1) (Fin ?a))))))
      (Fin 100))) (Fin 100)"
    unfolding calculateStraightLineDistance_def Let_def exact_arithmetic_def
      engine.select_convs Coordinates.select_convs ops exact_sin.simps exact_cos.simps a ..
  also have "\<dots> = Fin (of_int \<lfloor>6371 * (2 * arcsin (sqrt ?a)) * 100 + 1 / 2\<rfloor> / 100)"
    using b by (simp add: ops c)
  also have "\<dots> = Fin (round_2_decimals_spec (great_circle_km_spec lat1 lng1 lat2 lng2))"
    by (simp add: round_2_decimals_spec_def great_circle_km_spec_def round_def hav_arg_def)
  finally show ?thesis .
qed

subsection \<open>Identical coordinates\<close>

lemma fl_0: "fl 0 = Fin 0"
  by (simp add: fl_def)

lemma fl_finite_small:
  assumes "\<bar>x\<bar> \<le> B" "1 \<le> B" "B \<le> 1000"
  shows "\<exists>v. fl x = Fin v \<and> \<bar>v\<bar> \<le> 2 * B"
proof (rule fl_bounded [OF assms(1)])
  have "(1::real) / 2 ^ 1000 \<le> 1" by simp
  with assms(2) show "1 / 2 ^ 1000 \<le> B" by linarith
  have "(1000::real) \<le> 2 ^ 1000" by simp
  with assms(3) show "B \<le> 2 ^ 1000" by linarith
qed

lemma PI_double_bounds: "314 / 100 \<le> PI_double" "PI_double \<le> 315 / 100"
  by (simp_all add: PI_double_def)

text \<open>The cosine of a latitude in degrees, as the code computes it, is finite and of
  magnitude at most 2, and so is the product of two of them times 0.\<close>

lemma cos_of_latitude:
  assumes "es_conforming eng" "\<bar>a\<bar> \<le> 90"
  shows "\<exists>c. Math_cos eng (n_div (rnd eng) (n_mul (rnd eng) (Fin a) (Math_PI eng)) (Fin 180)) =
      Fin c \<and> \<bar>c\<bar> \<le> 2"
proof -
  have "\<bar>a * PI_double\<bar> \<le> 90 * (315 / 100)"
    unfolding abs_mult using assms(2) PI_double_bounds
    by (intro mult_mono) (auto simp: PI_double_def)
  then have "\<bar>a * PI_double\<bar> \<le> 360" by simp
  from fl_finite_small [OF this] obtain v1 where v1: "fl (a * PI_double) = Fin v1" "\<bar>v1\<bar> \<le> 720"
    by auto
  then have "\<bar>v1 / 180\<bar> \<le> 4" by simp
  from fl_finite_small [OF this] obtain v2 where v2: "fl (v1 / 180) = Fin v2" by auto
  from assms(1) obtain c where "Math_cos eng (Fin v2) = Fin c" "\<bar>c\<bar> \<le> 2"
    unfolding es_conforming_def by blast
  with assms(1) v1 v2 show ?thesis by (simp add: es_conforming_def)
qed

lemma calculateStraightLineDistance_same:
  assumes eng: "es_conforming eng" and p: "is_coordinates p"
  shows "calculateStraightLineDistance eng p p = Fin 0"
proof -
  from p obtain a b where ab: "lat p = Fin a" "lng p = Fin b" "\<bar>a\<bar> \<le> 90"
    by (auto simp: is_coordinates_def split: number.splits)
  from eng have e: "rnd eng = fl" "Math_PI eng = Fin PI_double" "Math_sin eng (Fin 0) = Fin 0"
    "Math_sqrt eng (Fin 0) = Fin 0"
    by (simp_all add: es_conforming_def)
  from eng obtain v where v: "Math_sqrt eng (Fin 1) = Fin v" "0 < v"
    unfolding es_conforming_def by blast
  with eng have at: "Math_atan2 eng (Fin 0) (Fin v) = Fin 0"
    by (simp add: es_conforming_def)
  from cos_of_latitude [OF eng ab(3)] obtain c
    where c: "Math_cos eng (n_div fl (n_mul fl (Fin a) (Fin PI_double)) (Fin 180)) = Fin c"
      "\<bar>c\<bar> \<le> 2"
    by (auto simp: e)
  have "\<bar>c * c\<bar> \<le> 4" using c(2) abs_mult [of c c] mult_mono [of "\<bar>c\<bar>" 2 "\<bar>c\<bar>" 2] by simp
  from fl_finite_small [OF this] obtain c2 where c2: "fl (c * c) = Fin c2" by auto
  have zero: "n_sub fl (Fin a) (Fin a) = Fin 0" "n_sub fl (Fin b) (Fin b) = Fin 0"
    "n_mul fl (Fin 0) (Fin PI_double) = Fin 0" "n_div fl (Fin 0) (Fin 180) = Fin 0"
    "n_div fl (Fin 0) (Fin 2) = Fin 0" "n_mul fl (Fin 0) (Fin 0) = Fin 0"
    "n_mul fl (Fin c) (Fin c) = Fin c2" "n_mul fl (Fin c2) (Fin 0) = Fin 0"
    "n_add fl (Fin 0) (Fin 0) = Fin 0" "n_sub fl (Fin 1) (Fin 0) = Fin 1"
    "n_mul fl (Fin 2) (Fin 0) = Fin 0" "n_mul fl (Fin 6371) (Fin 0) = Fin 0"
    "n_mul fl (Fin 0) (Fin 100) = Fin 0" "Math_round (Fin 0) = Fin 0"
    "n_div fl (Fin 0) (Fin 100) = Fin 0"
    by (simp_all add: n_sub_def fl_0 fl_1 c2)
  show ?thesis
    unfolding calculateStraightLineDistance_def Let_def ab e c zero v at ..
qed

lemma cr_engine_conforming: "es_conforming cr_engine"
proof -
  have "\<exists>v. fl (cos x) = Fin v \<and> \<bar>v\<bar> \<le> 2" for x
    using fl_finite_small [of "cos x" 1] by simp
  then show ?thesis
    by (simp add: es_conforming_def cr_engine_def fl_0 fl_1 atan2_real_def)
qed

subsection \<open>Enclosures of binary64 results\<close>

lemma enclose_fl:
  assumes "a \<le> x" "x \<le> b" "lo \<le> a * (999 / 1000)" "b * (1001 / 1000) \<le> hi"
    "1 / 2 ^ 100 \<le> a" "b \<le> 2 ^ 100"
  shows "\<exists>v. fl x = Fin v \<and> lo \<le> v \<and> v \<le> hi"
proof -
  from fl_pos_bounds [OF assms(1,2,5,6)] obtain y
    where "fl x = Fin y" "a * (999 / 1000) \<le> y" "y \<le> b * (1001 / 1000)" by blast
  with assms(3,4) show ?thesis by (intro exI [of _ y]) linarith
qed

lemma enclose_mul:
  assumes "a \<le> x" "x \<le> b" "c \<le> y" "y \<le> d" "0 < a" "0 < c"
    "lo \<le> a * c * (999 / 1000)" "b * d * (1001 / 1000) \<le> hi"
    "1 / 2 ^ 100 \<le> a * c" "b * d \<le> 2 ^ 100"
  shows "\<exists>v. n_mul fl (Fin x) (Fin y) = Fin v \<and> lo \<le> v \<and> v \<le> hi"
proof -
  have "a * c \<le> x * y" using assms(1,3,5,6) by (intro mult_mono) auto
  moreover have "x * y \<le> b * d" using assms(1-6) by (intro mult_mono) auto
  ultimately show ?thesis using enclose_fl [OF _ _ assms(7-10)] by simp
qed

lemma enclose_div:
  assumes "a \<le> x" "x \<le> b" "0 < k"
    "lo \<le> a / k * (999 / 1000)" "b / k * (1001 / 1000) \<le> hi"
    "1 / 2 ^ 100 \<le> a / k" "b / k \<le> 2 ^ 100"
  shows "\<exists>v. n_div fl (Fin x) (Fin k) = Fin v \<and> lo \<le> v \<and> v \<le> hi"
proof -
  have "a / k \<le> x / k" "x / k \<le> b / k" using assms(1-3) by (simp_all add: divide_right_mono)
  then show ?thesis using enclose_fl [OF _ _ assms(4-7)] assms(3) by simp
qed

lemma cube_small:
  fixes t :: real
  assumes "0 < t" "t \<le> 1 / 100"
  shows "t ^ 3 / 6 \<le> t / 10000" "t ^ 3 / 3 \<le> t / 10000"
proof -
  have "t * t \<le> 1 / 100 * (1 / 100)" using assms by (intro mult_mono) auto
  then have "t * t * t \<le> 1 / 10000 * t" using assms(1) by (intro mult_right_mono) auto
  then show "t ^ 3 / 6 \<le> t / 10000" "t ^ 3 / 3 \<le> t / 10000"
    using assms(1) by (simp_all add: power3_eq_cube)
qed

lemma enclose_sin:
  assumes "a \<le> x" "x \<le> b" "0 < a" "b \<le> 1 / 100"
    "lo \<le> a * (998 / 1000)" "b * (1001 / 1000) \<le> hi" "1 / 2 ^ 99 \<le> a"
  shows "\<exists>v. cr_sin (Fin x) = Fin v \<and> lo \<le> v \<and> v \<le> hi"
proof -
  have x: "0 < x" "x \<le> 1 / 100" using assms(1-4) by linarith+
  then have "x ^ 3 / 6 \<le> x / 10000" by (rule cube_small)
  with sin_ge_cubic [of x] x(1) have lower: "a * (9999 / 10000) \<le> sin x"
    using assms(1) by (simp add: field_simps)
  have upper: "sin x \<le> b" using sin_x_le_x [of x] x(1) assms(2) by linarith
  have 1: "lo \<le> a * (9999 / 10000) * (999 / 1000)" using assms(3,5) by (simp add: field_simps)
  have 2: "1 / 2 ^ 100 \<le> a * (9999 / 10000)" using assms(7) by (simp add: field_simps)
  have 3: "b \<le> 2 ^ 100"
  proof -
    have "(1::real) / 100 \<le> 2 ^ 100" by simp
    with assms(4) show ?thesis by linarith
  qed
  from enclose_fl [OF lower upper 1 assms(6) 2 3] show ?thesis by simp
qed

lemma enclose_sqrt:
  assumes "a \<le> x" "x \<le> b" "0 < l" "l * l \<le> a" "b \<le> h * h" "0 < h"
    "lo \<le> l * (999 / 1000)" "h * (1001 / 1000) \<le> hi" "1 / 2 ^ 100 \<le> l" "h \<le> 2 ^ 100"
  shows "\<exists>v. cr_sqrt (Fin x) = Fin v \<and> lo \<le> v \<and> v \<le> hi"
proof -
  have x: "0 \<le> x" using assms(1,3,4) mult_pos_pos [of l l] by linarith
  have "l\<^sup>2 \<le> x" using assms(1,4) by (simp add: power2_eq_square)
  then have lower: "l \<le> sqrt x" using assms(3) by (simp add: real_le_rsqrt)
  have "x \<le> h\<^sup>2" using assms(2,5) by (simp add: power2_eq_square)
  then have upper: "sqrt x \<le> h" using assms(6) by (simp add: real_le_lsqrt x)
  from enclose_fl [OF lower upper assms(7-10)] x show ?thesis by simp
qed

lemma arctan_enclosure:
  fixes t :: real
  assumes "0 < t" "t \<le> 1 / 100"
  shows "t * (9999 / 10000) \<le> arctan t" "arctan t \<le> t"
proof -
  have "t ^ 3 / 3 \<le> t / 10000" using assms by (rule cube_small)
  moreover have "t - t ^ 3 / 3 \<le> arctan t" using arctan_ge_cubic [of t] assms(1) by simp
  ultimately show "t * (9999 / 10000) \<le> arctan t" by argo
  show "arctan t \<le> t" using arctan_le_self [of t] assms(1) by simp
qed

lemma enclose_atan2:
  assumes "a \<le> y" "y \<le> b" "c \<le> z" "z \<le> d" "0 < a" "0 < c" "b / c \<le> 1 / 100"
    "lo \<le> a / d * (998 / 1000)" "b / c * (1001 / 1000) \<le> hi" "1 / 2 ^ 99 \<le> a / d"
  shows "\<exists>v. cr_atan2 (Fin y) (Fin z) = Fin v \<and> lo \<le> v \<and> v \<le> hi"
proof -
  have pos: "0 < y" "0 < z" "0 < d" "0 < b" using assms(1-6) by linarith+
  define t where "t = y / z"
  define l where "l = a / d"
  define h where "h = b / c"
  have t_lo: "l \<le> t" unfolding l_def t_def using assms(1,4,5) pos by (intro frac_le) auto
  have t_hi: "t \<le> h" unfolding h_def t_def using assms(2,3,6) pos by (intro frac_le) auto
  have h: "h \<le> 1 / 100" unfolding h_def by (rule assms(7))
  have l: "0 < l" unfolding l_def using assms(5) pos by simp
  have t: "0 < t" "t \<le> 1 / 100" using l t_lo t_hi h by linarith+
  from arctan_enclosure [OF t] have "t * (9999 / 10000) \<le> arctan t" "arctan t \<le> t" .
  with t_lo t_hi have lower: "l * (9999 / 10000) \<le> arctan t" and upper: "arctan t \<le> h"
    by linarith+
  have "lo \<le> l * (998 / 1000)" unfolding l_def by (rule assms(8))
  moreover have "l * (998 / 1000) \<le> l * (9999 / 10000) * (999 / 1000)" using l by simp
  ultimately have 1: "lo \<le> l * (9999 / 10000) * (999 / 1000)" by (rule order_trans)
  have 4: "h * (1001 / 1000) \<le> hi" unfolding h_def by (rule assms(9))
  have "1 / 2 ^ 99 \<le> l" unfolding l_def by (rule assms(10))
  then have 2: "1 / 2 ^ 100 \<le> l * (9999 / 10000)" by simp
  have 3: "h \<le> 2 ^ 100"
  proof -
    have "(1::real) / 100 \<le> 2 ^ 100" by simp
    with h show ?thesis by linarith
  qed
  from enclose_fl [OF lower upper 1 4 2 3] pos show ?thesis
    by (simp add: atan2_real_def t_def)
qed

subsection \<open>Two points 8.5 m apart\<close>

text \<open>Over the reals the two points on the equator are \<open>6371 * pi / 2359296\<close> km apart,
  which rounds to 0.01 km.\<close>

lemma great_circle_example:
  "great_circle_km_spec 0 0 0 (5 / 65536) = 6371 * pi / 2359296"
proof -
  let ?x = "pi / 4718592"
  have x: "0 \<le> ?x" "?x \<le> pi / 2" using pi_ge_zero by simp_all
  then have "0 \<le> sin ?x" by (intro sin_ge_zero) (auto intro: order_trans)
  then have "sqrt ((sin ?x)\<^sup>2) = sin ?x" by simp
  moreover have "arcsin (sin ?x) = ?x" using x by (intro arcsin_sin) (auto intro: order_trans)
  moreover have "radians (5 / 65536) / 2 = ?x" by (simp add: radians_def)
  ultimately show ?thesis
    by (simp add: great_circle_km_spec_def haversine_def radians_def)
qed

lemma round_2_decimals_example:
  "round_2_decimals_spec (great_circle_km_spec 0 0 0 (5 / 65536)) = 1 / 100"
proof -
  have "1 \<le> 6371 * pi / 2359296 * 100 + 1 / 2" "6371 * pi / 2359296 * 100 + 1 / 2 < 2"
    using pi_ge_two pi_less_4 by simp_all
  then have "\<lfloor>6371 * pi / 2359296 * 100 + 1 / 2\<rfloor> = 1" by linarith
  then show ?thesis
    unfolding great_circle_example round_2_decimals_spec_def round_def by simp
qed

text \<open>In binary64, on the correctly rounded engine, every intermediate result of the
  code for these two points is enclosed in an interval; the product before
  \<open>Math.round\<close> lies in \<open>[0.73, 0.98]\<close>, so that the result is the double nearest to
  0.01.\<close>

lemma fallback_example:
  "calculateStraightLineDistance cr_engine equator_origin equator_near = Fin double_0_01"
proof -
  have z: "n_sub fl (Fin 0) (Fin 0) = Fin 0" "n_mul fl (Fin 0) (Fin PI_double) = Fin 0"
    "n_div fl (Fin 0) (Fin 180) = Fin 0" "n_div fl (Fin 0) (Fin 2) = Fin 0"
    "cr_sin (Fin 0) = Fin 0" "n_mul fl (Fin 0) (Fin 0) = Fin 0" "cr_cos (Fin 0) = Fin 1"
    "n_mul fl (Fin 1) (Fin 1) = Fin 1"
    by (simp_all add: n_sub_def fl_0 fl_1)
  obtain v0 where k0: "n_sub fl (Fin (5 / 65536)) (Fin 0) = Fin v0"
    and b0: "76 / 10 ^ 6 \<le> v0" "v0 \<le> 77 / 10 ^ 6"
  proof -
    have "\<exists>v. fl (5 / 65536) = Fin v \<and> 76 / 10 ^ 6 \<le> v \<and> v \<le> 77 / 10 ^ 6"
      by (rule enclose_fl [where a = "5 / 65536" and b = "5 / 65536"]) simp_all
    then show ?thesis using that by (auto simp: n_sub_def)
  qed
  obtain v1 where k1: "n_mul fl (Fin v0) (Fin PI_double) = Fin v1"
    and b1: "238 / 10 ^ 6 \<le> v1" "v1 \<le> 243 / 10 ^ 6"
  proof -
    have "\<exists>v. n_mul fl (Fin v0) (Fin PI_double) = Fin v \<and> 238 / 10 ^ 6 \<le> v \<and> v \<le> 243 / 10 ^ 6"
      by (rule enclose_mul [OF b0 PI_double_bounds]) simp_all
    then show ?thesis using that by blast
  qed
  obtain v2 where k2: "n_div fl (Fin v1) (Fin 180) = Fin v2"
    and b2: "132 / 10 ^ 8 \<le> v2" "v2 \<le> 136 / 10 ^ 8"
  proof -
    have "\<exists>v. n_div fl (Fin v1) (Fin 180) = Fin v \<and> 132 / 10 ^ 8 \<le> v \<and> v \<le> 136 / 10 ^ 8"
      by (rule enclose_div [OF b1]) simp_all
    then show ?thesis using that by blast
  qed
  obtain v3 where k3: "n_div fl (Fin v2) (Fin 2) = Fin v3"
    and b3: "65 / 10 ^ 8 \<le> v3" "v3 \<le> 69 / 10 ^ 8"
  proof -
    have "\<exists>v. n_div fl (Fin v2) (Fin 2) = Fin v \<and> 65 / 10 ^ 8 \<le> v \<and> v \<le> 69 / 10 ^ 8"
      by (rule enclose_div [OF b2]) simp_all
    then show ?thesis using that by blast
  qed
  obtain s where k4: "cr_sin (Fin v3) = Fin s"
    and b4: "64 / 10 ^ 8 \<le> s" "s \<le> 70 / 10 ^ 8"
  proof -
    have "\<exists>v. cr_sin (Fin v3) = Fin v \<and> 64 / 10 ^ 8 \<le> v \<and> v \<le> 70 / 10 ^ 8"
      by (rule enclose_sin [OF b3]) simp_all
    then show ?thesis using that by blast
  qed
  obtain m1 where k5: "n_mul fl (Fin 1) (Fin s) = Fin m1"
    and b5: "63 / 10 ^ 8 \<le> m1" "m1 \<le> 71 / 10 ^ 8"
  proof -
    have "\<exists>v. n_mul fl (Fin 1) (Fin s) = Fin v \<and> 63 / 10 ^ 8 \<le> v \<and> v \<le> 71 / 10 ^ 8"
      by (rule enclose_mul [OF order_refl order_refl b4]) simp_all
    then show ?thesis using that by blast
  qed
  obtain m2 where k6: "n_mul fl (Fin m1) (Fin s) = Fin m2"
    and b6: "40 / 10 ^ 14 \<le> m2" "m2 \<le> 50 / 10 ^ 14"
  proof -
    have "\<exists>v. n_mul fl (Fin m1) (Fin s) = Fin v \<and> 40 / 10 ^ 14 \<le> v \<and> v \<le> 50 / 10 ^ 14"
      by (rule enclose_mul [OF b5 b4]) simp_all
    then show ?thesis using that by blast
  qed
  obtain a where k7: "n_add fl (Fin 0) (Fin m2) = Fin a"
    and b7: "39 / 10 ^ 14 \<le> a" "a \<le> 51 / 10 ^ 14"
  proof -
    have "\<exists>v. fl m2 = Fin v \<and> 39 / 10 ^ 14 \<le> v \<and> v \<le> 51 / 10 ^ 14"
      by (rule enclose_fl [OF b6]) simp_all
    then show ?thesis using that by auto
  qed
  obtain sa where k8: "cr_sqrt (Fin a) = Fin sa"
    and b8: "61 / 10 ^ 8 \<le> sa" "sa \<le> 73 / 10 ^ 8"
  proof -
    have "\<exists>v. cr_sqrt (Fin a) = Fin v \<and> 61 / 10 ^ 8 \<le> v \<and> v \<le> 73 / 10 ^ 8"
      by (rule enclose_sqrt [where l = "62 / 10 ^ 8" and h = "72 / 10 ^ 8", OF b7]) simp_all
    then show ?thesis using that by blast
  qed
  obtain b where k9: "n_sub fl (Fin 1) (Fin a) = Fin b"
    and b9: "99 / 100 \<le> b" "b \<le> 101 / 100"
  proof -
    have "999 / 1000 \<le> 1 - a" "1 - a \<le> 1" using b7 by simp_all
    then have "\<exists>v. fl (1 - a) = Fin v \<and> 99 / 100 \<le> v \<and> v \<le> 101 / 100"
      by (rule enclose_fl) simp_all
    then show ?thesis using that by (auto simp: n_sub_def)
  qed
  obtain sb where k10: "cr_sqrt (Fin b) = Fin sb"
    and b10: "98 / 100 \<le> sb" "sb \<le> 102 / 100"
  proof -
    have "\<exists>v. cr_sqrt (Fin b) = Fin v \<and> 98 / 100 \<le> v \<and> v \<le> 102 / 100"
      by (rule enclose_sqrt [where l = "99 / 100" and h = "101 / 100", OF b9]) simp_all
    then show ?thesis using that by blast
  qed
  obtain t where k11: "cr_atan2 (Fin sa) (Fin sb) = Fin t"
    and b11: "59 / 10 ^ 8 \<le> t" "t \<le> 75 / 10 ^ 8"
  proof -
    have "\<exists>v. cr_atan2 (Fin sa) (Fin sb) = Fin v \<and> 59 / 10 ^ 8 \<le> v \<and> v \<le> 75 / 10 ^ 8"
      by (rule enclose_atan2 [OF b8 b10]) simp_all
    then show ?thesis using that by blast
  qed
  obtain c where k12: "n_mul fl (Fin 2) (Fin t) = Fin c"
    and b12: "117 / 10 ^ 8 \<le> c" "c \<le> 151 / 10 ^ 8"
  proof -
    have "\<exists>v. n_mul fl (Fin 2) (Fin t) = Fin v \<and> 117 / 10 ^ 8 \<le> v \<and> v \<le> 151 / 10 ^ 8"
      by (rule enclose_mul [OF order_refl order_refl b11]) simp_all
    then show ?thesis using that by blast
  qed
  obtain rc where k13: "n_mul fl (Fin 6371) (Fin c) = Fin rc"
    and b13: "74 / 10 ^ 4 \<le> rc" "rc \<le> 97 / 10 ^ 4"
  proof -
    have "\<exists>v. n_mul fl (Fin 6371) (Fin c) = Fin v \<and> 74 / 10 ^ 4 \<le> v \<and> v \<le> 97 / 10 ^ 4"
      by (rule enclose_mul [OF order_refl order_refl b12]) simp_all
    then show ?thesis using that by blast
  qed
  obtain w where k14: "n_mul fl (Fin rc) (Fin 100) = Fin w"
    and b14: "73 / 100 \<le> w" "w \<le> 98 / 100"
  proof -
    have "\<exists>v. n_mul fl (Fin rc) (Fin 100) = Fin v \<and> 73 / 100 \<le> v \<and> v \<le> 98 / 100"
      by (rule enclose_mul [OF b13 order_refl order_refl]) simp_all
    then show ?thesis using that by blast
  qed
  have "\<lfloor>w + 1 / 2\<rfloor> = 1" using b14 by linarith
  then have k15: "Math_round (Fin w) = Fin 1" by simp
  have k16: "n_div fl (Fin 1) (Fin 100) = Fin double_0_01" by (simp add: fl_one_hundredth)
  show ?thesis
    unfolding calculateStraightLineDistance_def Let_def cr_engine_def equator_origin_def
      equator_near_def engine.select_convs Coordinates.select_convs
      z k0 k1 k2 k3 k4 k5 k6 k7 k8 k9 k10 k11 k12 k13 k14 k15 k16 ..
qed

text \<open>Three times that distance is about 0.03, which \<open>Math.round\<close> takes to 0.\<close>

lemma fallback_example_minutes:
  "\<exists>v. n_mul fl (Fin double_0_01) (Fin 3) = Fin v \<and> 29 / 1000 \<le> v \<and> v \<le> 31 / 1000 \<and>
       Math_round (Fin v) = Fin 0"
proof -
  have d: "99 / 10000 \<le> double_0_01" "double_0_01 \<le> 101 / 10000"
    by (simp_all add: double_0_01_def)
  have "\<exists>v. n_mul fl (Fin double_0_01) (Fin 3) = Fin v \<and> 29 / 1000 \<le> v \<and> v \<le> 31 / 1000"
    by (rule enclose_mul [OF d order_refl order_refl]) simp_all
  then obtain v where v: "n_mul fl (Fin double_0_01) (Fin 3) = Fin v" "29 / 1000 \<le> v"
    "v \<le> 31 / 1000" by blast
  then have "\<lfloor>v + 1 / 2\<rfloor> = 0" by linarith
  then have "Math_round (Fin v) = Fin 0" by simp
  with v show ?thesis by blast
qed

lemma fallback_example_run:
  "calculateRouteDetails cr_engine s equator_origin equator_near FetchThrows =
     (s\<lparr>distance := Fin double_0_01, duration := Fin 0, isCalculating := False\<rparr>,
      [ConsoleError ''Error calculating route with Google Distance Matrix:''])"
proof -
  from fallback_example_minutes obtain v
    where "n_mul fl (Fin double_0_01) (Fin 3) = Fin v" "Math_round (Fin v) = Fin 0" by blast
  moreover have "rnd cr_engine = fl" by (simp add: cr_engine_def)
  ultimately show ?thesis
    by (simp add: calculateRouteDetails_def Let_def fallback_example)
qed

subsection \<open>A haversine sum above 1\<close>

text \<open>Nothing in the code keeps the rounded sum \<open>a\<close> at or below 1. Once it is a double
  above 1, \<open>1 - a\<close> is negative, its square root is \<open>NaN\<close>, and so is the distance.\<close>

lemma fl_negative:
  assumes "x \<le> - (1 / 2 ^ 52)" "- 1 \<le> x"
  shows "\<exists>y. fl x = Fin y \<and> y < 0"
proof -
  have x: "x < 0"
  proof -
    have "(0::real) < 1 / 2 ^ 52" by simp
    with assms(1) show ?thesis by linarith
  qed
  have "pow2 (- 1022) \<le> 1 / 2 ^ 52" by (simp add: pow2_def)
  then have 1: "pow2 (- 1022) \<le> \<bar>x\<bar>" using assms(1) x by linarith
  have "\<bar>x\<bar> \<le> 1" using assms(2) x by linarith
  moreover have "(1::real) < 2 ^ 1023" by simp
  ultimately have 2: "\<bar>x\<bar> < 2 ^ 1023" by (rule le_less_trans)
  from fl_rel_err [OF 1 2] obtain y where y: "fl x = Fin y" "\<bar>y - x\<bar> \<le> \<bar>x\<bar> / 2 ^ 53" by blast
  have "\<bar>x\<bar> / 2 ^ 53 = - x / 2 ^ 53" using x by simp
  also have "\<dots> < - x" using x by simp
  finally have "\<bar>y - x\<bar> < - x" using y(2) by linarith
  then have "y < 0" by linarith
  with y(1) show ?thesis by blast
qed

lemma sum_above_one_gives_NaN:
  assumes "1 + 1 / 2 ^ 52 \<le> a" "a \<le> 2"
  shows "n_div fl
           (Math_round (n_mul fl (n_mul fl (Fin 6371)
              (n_mul fl (Fin 2)
                 (cr_atan2 (cr_sqrt (Fin a)) (cr_sqrt (n_sub fl (Fin 1) (Fin a))))))
              (Fin 100)))
           (Fin 100) = NaN"
proof -
  have "1 - a \<le> - (1 / 2 ^ 52)" "- 1 \<le> 1 - a" using assms by linarith+
  from fl_negative [OF this] obtain y where "fl (1 - a) = Fin y" "y < 0" by blast
  then have "cr_sqrt (n_sub fl (Fin 1) (Fin a)) = NaN" by (simp add: n_sub_def)
  moreover have "cr_atan2 u NaN = NaN" for u by (cases u) simp_all
  ultimately show ?thesis by simp
qed

subsection \<open>The fallback\<close>

text \<open>
  C2, as the code has it. When the call of the distance service throws, answers with a
  status that is not ok, or answers with a body that is not JSON, the distance is what
  the haversine formula with the radius 6371 km, evaluated in double arithmetic and
  rounded to two decimals, gives: read over exact arithmetic it is the great-circle
  distance rounded to two decimals, and for two identical pairs of coordinates it is 0,
  with the duration 0. The duration is the distance times 3 rounded to the nearest whole
  minute, not the product itself.
\<close>

theorem fallback_distance_and_duration:
  "(let D = calculateStraightLineDistance eng p q;
        fallback = (s\<lparr>distance := D, duration := Math_round (n_mul (rnd eng) D (Fin 3)),
                      isCalculating := False\<rparr>,
                    [ConsoleError ''Error calculating route with Google Distance Matrix:''])
    in calculateRouteDetails eng s p q FetchThrows = fallback \<and>
       calculateRouteDetails eng s p q (NotOk code) = fallback \<and>
       calculateRouteDetails eng s p q OkBadJson = fallback \<and>
       (\<forall>x. n_mul (rnd eng) D (Fin 3) = Fin x \<longrightarrow>
          (\<exists>n. of_int n - 1 / 2 \<le> x \<and> x < of_int n + 1 / 2 \<and>
               duration (fst fallback) = Fin (of_int n)))) \<and>
   calculateStraightLineDistance exact_arithmetic
     \<lparr>lat = Fin lat1, lng = Fin lng1\<rparr> \<lparr>lat = Fin lat2, lng = Fin lng2\<rparr> =
     Fin (round_2_decimals_spec (great_circle_km_spec lat1 lng1 lat2 lng2)) \<and>
   (es_conforming eng \<and> is_coordinates p \<longrightarrow>
      distance (fst (calculateRouteDetails eng s p p FetchThrows)) = Fin 0 \<and>
      duration (fst (calculateRouteDetails eng s p p FetchThrows)) = Fin 0)"
proof -
  have nearest: "\<forall>x. n_mul (rnd eng) (calculateStraightLineDistance eng p q) (Fin 3) = Fin x \<longrightarrow>
      (\<exists>n. of_int n - 1 / 2 \<le> x \<and> x < of_int n + 1 / 2 \<and>
           Math_round (n_mul (rnd eng) (calculateStraightLineDistance eng p q) (Fin 3)) =
           Fin (of_int n))"
    using Math_round_nearest by auto
  have same: "distance (fst (calculateRouteDetails eng s p p FetchThrows)) = Fin 0 \<and>
      duration (fst (calculateRouteDetails eng s p p FetchThrows)) = Fin 0"
    if "es_conforming eng" "is_coordinates p"
  proof -
    from that have "calculateStraightLineDistance eng p p = Fin 0"
      by (rule calculateStraightLineDistance_same)
    moreover from that(1) have "rnd eng = fl" by (simp add: es_conforming_def)
    ultimately show ?thesis by (simp add: calculateRouteDetails_def Let_def fl_0)
  qed
  have run: "calculateRouteDetails eng s p q resp =
      (s\<lparr>distance := calculateStraightLineDistance eng p q,
         duration := Math_round (n_mul (rnd eng) (calculateStraightLineDistance eng p q) (Fin 3)),
         isCalculating := False\<rparr>,
       [ConsoleError ''Error calculating route with Google Distance Matrix:''])"
    if "resp = FetchThrows \<or> resp = NotOk code \<or> resp = OkBadJson" for resp
    using that by (auto simp: calculateRouteDetails_def Let_def)
  have dur: "duration (fst (s\<lparr>distance := calculateStraightLineDistance eng p q,
         duration := Math_round (n_mul (rnd eng) (calculateStraightLineDistance eng p q) (Fin 3)),
         isCalculating := False\<rparr>,
       [ConsoleError ''Error calculating route with Google Distance Matrix:''])) =
      Math_round (n_mul (rnd eng) (calculateStraightLineDistance eng p q) (Fin 3))"
    by simp
  show ?thesis
    unfolding Let_def dur
    using nearest same calculateStraightLineDistance_exact [of lat1 lng1 lat2 lng2]
      run [of FetchThrows] run [of "NotOk code"] run [of OkBadJson]
    by blast
qed

theorem fallback_distance_and_duration_witness:
  "calculateRouteDetails cr_engine initialState equator_origin equator_near (NotOk 500) =
     (initialState\<lparr>distance := Fin double_0_01, duration := Fin 0, isCalculating := False\<rparr>,
      [ConsoleError ''Error calculating route with Google Distance Matrix:'']) \<and>
   calculateStraightLineDistance exact_arithmetic
     \<lparr>lat = Fin 0, lng = Fin 0\<rparr> \<lparr>lat = Fin 0, lng = Fin (5 / 65536)\<rparr> = Fin (1 / 100) \<and>
   es_conforming cr_engine \<and> is_coordinates equator_origin \<and>
   distance (fst (calculateRouteDetails cr_engine initialState equator_origin equator_origin
                    FetchThrows)) = Fin 0 \<and>
   duration (fst (calculateRouteDetails cr_engine initialState equator_origin equator_origin
                    FetchThrows)) = Fin 0"
proof -
  note inst = fallback_distance_and_duration
    [of cr_engine equator_origin equator_near initialState 500 0 0 0 "5 / 65536"]
  have coords: "is_coordinates equator_origin"
    by (simp add: is_coordinates_def equator_origin_def)
  from fallback_example_minutes obtain v
    where v: "n_mul fl (Fin double_0_01) (Fin 3) = Fin v" "Math_round (Fin v) = Fin 0" by blast
  have r: "rnd cr_engine = fl" by (simp add: cr_engine_def)
  from inst have "calculateRouteDetails cr_engine initialState equator_origin equator_near
        (NotOk 500) =
      (initialState\<lparr>distance := calculateStraightLineDistance cr_engine equator_origin equator_near,
         duration := Math_round (n_mul (rnd cr_engine)
           (calculateStraightLineDistance cr_engine equator_origin equator_near) (Fin 3)),
         isCalculating := False\<rparr>,
       [ConsoleError ''Error calculating route with Google Distance Matrix:''])"
    unfolding Let_def by blast
  then have 1: "calculateRouteDetails cr_engine initialState equator_origin equator_near
        (NotOk 500) =
      (initialState\<lparr>distance := Fin double_0_01, duration := Fin 0, isCalculating := False\<rparr>,
       [ConsoleError ''Error calculating route with Google Distance Matrix:''])"
    unfolding fallback_example r v .
  from inst have "calculateStraightLineDistance exact_arithmetic
      \<lparr>lat = Fin 0, lng = Fin 0\<rparr> \<lparr>lat = Fin 0, lng = Fin (5 / 65536)\<rparr> =
      Fin (round_2_decimals_spec (great_circle_km_spec 0 0 0 (5 / 65536)))"
    unfolding Let_def by blast
  then have 2: "calculateStraightLineDistance exact_arithmetic
      \<lparr>lat = Fin 0, lng = Fin 0\<rparr> \<lparr>lat = Fin 0, lng = Fin (5 / 65536)\<rparr> = Fin (1 / 100)"
    unfolding round_2_decimals_example .
  from inst have "es_conforming cr_engine \<and> is_coordinates equator_origin \<longrightarrow>
      distance (fst (calculateRouteDetails cr_engine initialState equator_origin equator_origin
                       FetchThrows)) = Fin 0 \<and>
      duration (fst (calculateRouteDetails cr_engine initialState equator_origin equator_origin
                       FetchThrows)) = Fin 0"
    unfolding Let_def by blast
  with cr_engine_conforming coords 1 2 show ?thesis by blast
qed

text \<open>
  C2, as stated, fails in its last part: on the correctly rounded engine the two points
  on the equator are 0.01 km apart, and the duration is 0 minutes, not the product of
  the distance and 3.
\<close>

theorem fallback_duration_is_rounded:
  "distance (fst (calculateRouteDetails cr_engine initialState equator_origin equator_near
                    FetchThrows)) = Fin double_0_01 \<and>
   duration (fst (calculateRouteDetails cr_engine initialState equator_origin equator_near
                    FetchThrows)) = Fin 0 \<and>
   duration (fst (calculateRouteDetails cr_engine initialState equator_origin equator_near
                    FetchThrows)) \<noteq>
   n_mul fl (distance (fst (calculateRouteDetails cr_engine initialState equator_origin
                              equator_near FetchThrows))) (Fin 3)"
proof -
  from fallback_example_minutes obtain v
    where v: "n_mul fl (Fin double_0_01) (Fin 3) = Fin v" "29 / 1000 \<le> v" by blast
  then have "Fin 0 \<noteq> n_mul fl (Fin double_0_01) (Fin 3)" by simp
  then show ?thesis unfolding fallback_example_run by simp
qed

end
